theory Spec2Isabelle
  imports Main "HOL-Library.Char_ord" "HOL-Library.List_Lexorder" "HOL-Library.Product_Lexorder"
    "HOL-Library.Sublist"
begin

section \<open>Strings, paths and numbers\<close>

text \<open>
  The generator \<^verbatim>\<open>vulkan-shaders-gen.cpp\<close> works on \<^verbatim>\<open>std::string\<close> values, which are
  modelled as \<^typ>\<open>string\<close> (a list of 8-bit characters). A byte of a compiled artifact
  (\<^verbatim>\<open>unsigned char\<close>) is a \<^typ>\<open>char\<close> as well, read as a number by \<^term>\<open>of_char\<close>.
\<close>

definition toupper :: "char \<Rightarrow> char" where
  \<comment> \<open>\<^verbatim>\<open>std::toupper\<close> in the "C" locale\<close>
  "toupper c = (let n = (of_char c :: nat) in if 97 \<le> n \<and> n \<le> 122 then char_of (n - 32) else c)"

definition to_uppercase :: "string \<Rightarrow> string" where
  "to_uppercase input = map toupper input"

definition string_starts_with :: "string \<Rightarrow> string \<Rightarrow> bool" where
  "string_starts_with str pre =
     (if length pre > length str then False else take (length pre) str = pre)"

definition string_ends_with :: "string \<Rightarrow> string \<Rightarrow> bool" where
  "string_ends_with str suf =
     (if length suf > length str then False else take (length suf) (rev str) = rev suf)"

definition is_quantized_type :: "string \<Rightarrow> bool" where
  "is_quantized_type type_name =
     (type_name \<noteq> ''f32'' \<and> type_name \<noteq> ''f16'' \<and> type_name \<noteq> ''bf16'')"

definition is_legacy_quant :: "string \<Rightarrow> bool" where
  "is_legacy_quant type_name =
     (type_name = ''q4_0'' \<or> type_name = ''q4_1'' \<or> type_name = ''q5_0'' \<or>
      type_name = ''q5_1'' \<or> type_name = ''q8_0'')"

definition is_k_quant :: "string \<Rightarrow> bool" where
  "is_k_quant type_name = string_ends_with type_name ''_k''"

definition is_iq_quant :: "string \<Rightarrow> bool" where
  "is_iq_quant type_name = string_starts_with type_name ''iq''"

text \<open>
  \<^verbatim>\<open>std::string::find(pat)\<close>: the index of the first occurrence of \<open>pat\<close>, or
  \<^verbatim>\<open>npos\<close> (here \<open>None\<close>).
\<close>

fun find_from :: "string \<Rightarrow> string \<Rightarrow> nat \<Rightarrow> nat option" where
  "find_from [] pat i = (if pat = [] then Some i else None)"
| "find_from (c # s) pat i =
     (if string_starts_with (c # s) pat then Some i else find_from s pat (Suc i))"

definition str_find :: "string \<Rightarrow> string \<Rightarrow> nat option" where
  "str_find s pat = find_from s pat 0"

definition contains :: "string \<Rightarrow> string \<Rightarrow> bool" where
  \<comment> \<open>\<^verbatim>\<open>s.find(pat) != std::string::npos\<close>\<close>
  "contains s pat = (str_find s pat \<noteq> None)"

text \<open>
  \<^verbatim>\<open>std::filesystem::path\<close> on a POSIX system, as far as the generator uses it:
  \<open>operator/\<close>, \<open>filename()\<close>, \<open>parent_path()\<close>, and streaming a path, which writes it
  quoted with \<open>"\<close> and \<open>\\<close> escaped by a backslash.
\<close>

definition path_append :: "string \<Rightarrow> string \<Rightarrow> string" where
  "path_append p q =
     (if q \<noteq> [] \<and> hd q = CHR ''/'' then q
      else if p \<noteq> [] \<and> last p \<noteq> CHR ''/'' then p @ ''/'' @ q
      else p @ q)"

definition path_filename :: "string \<Rightarrow> string" where
  "path_filename p = rev (takeWhile (\<lambda>c. c \<noteq> CHR ''/'') (rev p))"

definition parent_path :: "string \<Rightarrow> string" where
  "parent_path p =
     (let d = dropWhile (\<lambda>c. c \<noteq> CHR ''/'') (rev p);
          e = dropWhile (\<lambda>c. c = CHR ''/'') d
      in if d = [] then [] else if e = [] then ''/'' else rev e)"

definition has_parent_path :: "string \<Rightarrow> bool" where
  "has_parent_path p = (parent_path p \<noteq> [])"

definition quoted :: "string \<Rightarrow> string" where
  "quoted s =
     CHR 0x22 # concat (map (\<lambda>c. if c = CHR 0x22 \<or> c = CHR 0x5C then [CHR 0x5C, c] else [c]) s)
       @ [CHR 0x22]"

text \<open>Numbers written to a stream in decimal (\<^verbatim>\<open>std::dec\<close>) and in lower-case hexadecimal
  (\<^verbatim>\<open>std::hex\<close>), in the "C" locale: no grouping, no leading zeros, no base prefix.\<close>

definition digits :: string where
  "digits = ''0123456789abcdef''"

definition digit_char :: "nat \<Rightarrow> char" where
  \<comment> \<open>read for \<open>d < 16\<close> only\<close>
  "digit_char d = digits ! d"

function show_base :: "nat \<Rightarrow> nat \<Rightarrow> string" where
  "show_base b n =
     (if b < 2 \<or> n < b then [digit_char n] else show_base b (n div b) @ [digit_char (n mod b)])"
  by pat_completeness auto
termination
  by (relation "measure (\<lambda>(b, n). n)") auto

definition show_dec :: "nat \<Rightarrow> string" where
  "show_dec n = show_base 10 n"

definition show_hex :: "nat \<Rightarrow> string" where
  "show_hex n = show_base 16 n"

section \<open>Define maps\<close>

text \<open>
  A \<^verbatim>\<open>std::map<std::string, std::string>\<close> is an association list whose keys increase
  strictly (the order in which the map is iterated). \<open>map_insert\<close> is
  \<^verbatim>\<open>std::map::insert\<close> of one pair, which leaves the map as it is when the key is there
  already; \<open>map_assign\<close> is \<^verbatim>\<open>m[k] = v\<close>; \<open>std_map\<close> builds a map from a braced
  initialiser list; \<open>map_insert_range\<close> is \<^verbatim>\<open>insert(first, last)\<close>.
\<close>

type_synonym smap = "(string \<times> string) list"

fun map_insert :: "string \<times> string \<Rightarrow> smap \<Rightarrow> smap" where
  "map_insert (k, v) [] = [(k, v)]"
| "map_insert (k, v) ((k', v') # m) =
     (if k = k' then (k', v') # m
      else if k < k' then (k, v) # (k', v') # m
      else (k', v') # map_insert (k, v) m)"

fun map_assign :: "string \<Rightarrow> string \<Rightarrow> smap \<Rightarrow> smap" where
  "map_assign k v [] = [(k, v)]"
| "map_assign k v ((k', v') # m) =
     (if k = k' then (k', v) # m
      else if k < k' then (k, v) # (k', v') # m
      else (k', v') # map_assign k v m)"

definition map_insert_range :: "smap \<Rightarrow> smap \<Rightarrow> smap" where
  "map_insert_range b m = fold map_insert b m"

definition std_map :: "(string \<times> string) list \<Rightarrow> smap" where
  "std_map init = map_insert_range init []"

definition wf_map :: "smap \<Rightarrow> bool" where
  "wf_map m = sorted_wrt (<) (map fst m)"

definition merge_maps :: "smap \<Rightarrow> smap \<Rightarrow> smap" where
  "merge_maps a b = (let result = a in map_insert_range b result)"

section \<open>Compile jobs\<close>

text \<open>
  The macros that are tested by \<^verbatim>\<open>#if defined(...)\<close> are fixed when the generator is
  built; they are the fields of \<open>macros\<close> (the prefix \<^verbatim>\<open>GGML_VULKAN_\<close> is dropped).
  The global variables \<^verbatim>\<open>GLSLC\<close>, \<^verbatim>\<open>input_dir\<close> and \<^verbatim>\<open>output_dir\<close> are the fields
  of \<open>globals\<close>.
\<close>

record macros =
  COOPMAT_GLSLC_SUPPORT :: bool
  COOPMAT2_GLSLC_SUPPORT :: bool
  INTEGER_DOT_GLSLC_SUPPORT :: bool
  BFLOAT16_GLSLC_SUPPORT :: bool
  SHADER_DEBUG_INFO :: bool

record globals =
  GLSLC :: string
  input_dir :: string
  output_dir :: string

datatype MatMulIdType = NONE | DEFAULT | SUBGROUP

definition type_names :: "string list" where
  "type_names =
     [''f32'', ''f16'', ''q4_0'', ''q4_1'', ''q5_0'', ''q5_1'', ''q8_0'', ''q2_k'', ''q3_k'',
      ''q4_k'', ''q5_k'', ''q6_k'', ''iq1_s'', ''iq1_m'', ''iq2_xxs'', ''iq2_xs'', ''iq2_s'',
      ''iq3_xxs'', ''iq3_s'', ''iq4_xs'', ''iq4_nl'', ''mxfp4'', ''bf16'']"

text \<open>
  One call of \<^verbatim>\<open>string_to_spv\<close> computes the name of a job, its paths and its compiler
  flags, hands them to \<^verbatim>\<open>cmake.add_build_command\<close> and appends the pair of name and
  output path to the global list \<^verbatim>\<open>shader_fnames\<close>. The model returns the job; the
  list of the jobs of all calls, in call order, carries both effects.
\<close>

record job =
  job_name :: string
  job_in_path :: string
  job_out_path :: string
  job_flags :: "string list"

definition spv_name :: "string \<Rightarrow> bool \<Rightarrow> bool \<Rightarrow> bool \<Rightarrow> bool \<Rightarrow> string" where
  "spv_name name0 fp16 coopmat coopmat2 f16acc =
     name0 @ (if f16acc then ''_f16acc'' else '''') @ (if coopmat then ''_cm1'' else '''')
       @ (if coopmat2 then ''_cm2'' else (if fp16 then '''' else ''_fp32''))"

definition string_to_spv ::
  "macros \<Rightarrow> globals \<Rightarrow> string \<Rightarrow> string \<Rightarrow> smap \<Rightarrow> bool \<Rightarrow> bool \<Rightarrow> bool \<Rightarrow> bool \<Rightarrow> job" where
  "string_to_spv mc g name0 in_fname defines fp16 coopmat coopmat2 f16acc =
     (let name = spv_name name0 fp16 coopmat coopmat2 f16acc;
          out_path = path_append (output_dir g) (name @ ''.spv'');
          in_path = path_append (input_dir g) in_fname;
          target_env = (if contains name ''_cm2'' then ''--target-env=vulkan1.3''
                        else ''--target-env=vulkan1.2'');
          opt_level = (if coopmat \<or> contains name ''bf16'' then '''' else ''-O'');
          flags = [''-fshader-stage=compute'', target_env, opt_level]
                    @ (if SHADER_DEBUG_INFO mc then [''-g''] else [])
                    @ map (\<lambda>(k, v). ''-D'' @ k @ ''='' @ v) defines
      in \<lparr>job_name = name, job_in_path = in_path, job_out_path = out_path, job_flags = flags\<rparr>)"

definition shader_fnames :: "job list \<Rightarrow> (string \<times> string) list" where
  "shader_fnames jobs = map (\<lambda>j. (job_name j, job_out_path j)) jobs"

section \<open>The catalog\<close>

text \<open>
  \<^verbatim>\<open>matmul_shaders\<close> and \<^verbatim>\<open>process_shaders\<close> are sequences of calls of
  \<^verbatim>\<open>string_to_spv\<close>. In the model the called function is the parameter \<open>emit\<close>, and each
  function returns the list of the results of its calls, in the order of the calls. With
  \<open>emit = string_to_spv mc g\<close> this is the list of jobs; with \<open>emit = name_only\<close> it is
  the list of their names. \<open>spv0\<close> is a call that leaves the four flags at their default
  values (\<^verbatim>\<open>fp16 = true\<close>, the others \<^verbatim>\<open>false\<close>).
\<close>

type_synonym 'a emitter = "string \<Rightarrow> string \<Rightarrow> smap \<Rightarrow> bool \<Rightarrow> bool \<Rightarrow> bool \<Rightarrow> bool \<Rightarrow> 'a"

definition spv0 :: "'a emitter \<Rightarrow> string \<Rightarrow> string \<Rightarrow> smap \<Rightarrow> 'a" where
  "spv0 emit name0 in_fname defines = emit name0 in_fname defines True False False False"

definition name_only :: "string emitter" where
  "name_only name0 in_fname defines fp16 coopmat coopmat2 f16acc =
     spv_name name0 fp16 coopmat coopmat2 f16acc"

definition acc_type_max :: string where
  "acc_type_max = CHR 0x22 # ''float16_t(65504.0)'' @ [CHR 0x22]"

definition unroll_attr :: string where
  "unroll_attr = ''['' @ ''[unroll]'' @ '']''"

definition matmul_shaders ::
  "macros \<Rightarrow> 'a emitter \<Rightarrow> bool \<Rightarrow> MatMulIdType \<Rightarrow> bool \<Rightarrow> bool \<Rightarrow> bool \<Rightarrow> 'a list" where
  "matmul_shaders mc emit fp16 matmul_id_type coopmat coopmat2 f16acc =
    (let load_vec = (if coopmat2 then ''1'' else if fp16 then ''8'' else ''4'');
         aligned_b_type_f32 = (if coopmat2 then ''float'' else if fp16 then ''mat2x4'' else ''vec4'');
         aligned_b_type_f16 =
           (if coopmat2 then ''float16_t'' else if fp16 then ''f16mat2x4'' else ''f16vec4'');
         dict0 = std_map [(''FLOAT_TYPE_VEC2'', if coopmat2 \<or> fp16 then ''f16vec2'' else ''vec2'')];
         shader_name = (case matmul_id_type of NONE \<Rightarrow> ''matmul'' | DEFAULT \<Rightarrow> ''matmul_id''
                        | SUBGROUP \<Rightarrow> ''matmul_id_subgroup'');
         dict1 = (case matmul_id_type of NONE \<Rightarrow> dict0
                  | DEFAULT \<Rightarrow> map_assign ''MUL_MAT_ID'' ''1'' dict0
                  | SUBGROUP \<Rightarrow> map_assign ''MUL_MAT_ID_USE_SUBGROUPS'' ''1''
                                 (map_assign ''MUL_MAT_ID'' ''1'' dict0));
         dict2 = (if fp16 then map_assign ''FLOAT16'' ''1'' dict1 else dict1);
         dict3 = map_assign ''ACC_TYPE'' (if f16acc then ''float16_t'' else ''float'') dict2;
         dict4 = (if f16acc then map_assign ''ACC_TYPE_MAX'' acc_type_max dict3 else dict3);
         mm_dict = (if coopmat then map_assign ''COOPMAT'' ''1'' dict4 else dict4);
         source_name = (if coopmat2 then ''mul_mm_cm2.comp'' else ''mul_mm.comp'');
         FLOAT_TYPE = (\<lambda>t. if t = ''bf16''
                             then (if \<not> coopmat \<and> \<not> coopmat2 then ''float'' else ''bfloat16_t'')
                             else if coopmat2 \<or> fp16 then ''float16_t'' else ''float'')
     in
       [emit (shader_name @ ''_f32_f16'') source_name (merge_maps mm_dict (std_map [(''FLOAT_TYPE'', FLOAT_TYPE ''f16''), (''DATA_A_F32'', ''1''), (''B_TYPE'', ''float16_t''), (''D_TYPE'', ''float'')])) fp16 coopmat coopmat2 f16acc,
        emit (shader_name @ ''_f32_f16_aligned'') source_name (merge_maps mm_dict (std_map [(''FLOAT_TYPE'', FLOAT_TYPE ''f16''), (''DATA_A_F32'', ''1''), (''LOAD_VEC_A'', load_vec), (''LOAD_VEC_B'', load_vec), (''B_TYPE'', aligned_b_type_f16), (''B_TYPE32'', aligned_b_type_f32), (''D_TYPE'', ''float''), (''ALIGNED'', ''1'')])) fp16 coopmat coopmat2 f16acc,
        emit (shader_name @ ''_f16_aligned'') source_name (merge_maps mm_dict (std_map [(''FLOAT_TYPE'', FLOAT_TYPE ''f16''), (''DATA_A_F16'', ''1''), (''LOAD_VEC_A'', load_vec), (''LOAD_VEC_B'', load_vec), (''B_TYPE'', aligned_b_type_f16), (''B_TYPE32'', aligned_b_type_f32), (''D_TYPE'', ''float''), (''ALIGNED'', ''1'')])) fp16 coopmat coopmat2 f16acc,
        emit (shader_name @ ''_f16'') source_name (merge_maps mm_dict (std_map [(''FLOAT_TYPE'', FLOAT_TYPE ''f16''), (''DATA_A_F16'', ''1''), (''B_TYPE'', ''float16_t''), (''D_TYPE'', ''float'')])) fp16 coopmat coopmat2 f16acc]
       @ (let load_vec_a_unaligned = ''1'';
              load_vec_a = (if coopmat2 then ''1'' else ''4'');
              to_float_type = (if coopmat \<or> coopmat2 then ''uintBitsToBFloat16EXT'' else ''bf16_to_fp32'')
          in if BFLOAT16_GLSLC_SUPPORT mc \<or> \<not> (coopmat \<or> coopmat2)
             then [emit (shader_name @ ''_bf16_aligned'') source_name (merge_maps mm_dict (std_map [(''FLOAT_TYPE'', FLOAT_TYPE ''bf16''), (''TO_FLOAT_TYPE'', to_float_type), (''DATA_A_BF16'', ''1''), (''LOAD_VEC_A'', load_vec_a), (''LOAD_VEC_B'', ''4''), (''B_TYPE'', if coopmat2 then ''bfloat16_t'' else ''u16vec4''), (''B_TYPE32'', ''vec4''), (''D_TYPE'', ''float''), (''B_IS_FLOAT'', ''1''), (''DATA_B_BF16'', ''1''), (''ALIGNED'', ''1'')])) fp16 coopmat coopmat2 f16acc,
                   emit (shader_name @ ''_bf16'') source_name (merge_maps mm_dict (std_map [(''FLOAT_TYPE'', FLOAT_TYPE ''bf16''), (''TO_FLOAT_TYPE'', to_float_type), (''DATA_A_BF16'', ''1''), (''LOAD_VEC_A'', load_vec_a_unaligned), (''B_TYPE'', if coopmat2 then ''bfloat16_t'' else ''uint16_t''), (''D_TYPE'', ''float''), (''B_IS_FLOAT'', ''1''), (''DATA_B_BF16'', ''1'')])) fp16 coopmat coopmat2 f16acc]
             else [])
       @ concat (map (\<lambda>tname.
           let load_vec_quant =
                 (if tname = ''q4_0'' \<or> tname = ''q4_1'' \<or> tname = ''iq1_s'' \<or> tname = ''iq1_m'' \<or>
                     tname = ''iq2_xxs'' \<or> tname = ''iq2_xs'' \<or> tname = ''iq2_s'' then ''8''
                  else if tname = ''q5_0'' \<or> tname = ''q5_1'' \<or> tname = ''q8_0'' \<or>
                     tname = ''iq3_xxs'' \<or> tname = ''iq3_s'' \<or> tname = ''iq4_nl'' \<or> tname = ''mxfp4''
                  then ''4'' else ''2'')
           in if tname = ''bf16'' then []
              else
                let data_a_key = ''DATA_A_'' @ to_uppercase tname;
                    load_vec_a_unaligned =
                      (if coopmat2 \<or> tname = ''f32'' \<or> tname = ''f16'' \<or> tname = ''bf16''
                       then ''1'' else load_vec_quant);
                    load_vec_a =
                      (if coopmat2 \<or> tname = ''f32'' \<or> tname = ''f16'' \<or> tname = ''bf16''
                       then load_vec else load_vec_quant)
                in (if \<not> coopmat2
                    then [emit (shader_name @ ''_'' @ tname @ ''_f32'') source_name (merge_maps mm_dict (std_map [(''FLOAT_TYPE'', FLOAT_TYPE tname), (data_a_key, ''1''), (''LOAD_VEC_A'', load_vec_a_unaligned), (''B_TYPE'', ''float''), (''D_TYPE'', ''float'')])) fp16 coopmat coopmat2 f16acc,
                          emit (shader_name @ ''_'' @ tname @ ''_f32_aligned'') source_name (merge_maps mm_dict (std_map [(''FLOAT_TYPE'', FLOAT_TYPE tname), (data_a_key, ''1''), (''LOAD_VEC_A'', load_vec_a), (''LOAD_VEC_B'', load_vec), (''B_TYPE'', aligned_b_type_f32), (''B_TYPE32'', aligned_b_type_f32), (''D_TYPE'', ''float''), (''ALIGNED'', ''1'')])) fp16 coopmat coopmat2 f16acc]
                    else [])
                 @ (if tname \<noteq> ''f16'' \<and> tname \<noteq> ''f32''
                    then [emit (shader_name @ ''_'' @ tname @ ''_f16'') source_name (merge_maps mm_dict (std_map [(''FLOAT_TYPE'', FLOAT_TYPE tname), (data_a_key, ''1''), (''LOAD_VEC_A'', load_vec_a_unaligned), (''B_TYPE'', ''float16_t''), (''D_TYPE'', ''float'')])) fp16 coopmat coopmat2 f16acc,
                          emit (shader_name @ ''_'' @ tname @ ''_f16_aligned'') source_name (merge_maps mm_dict (std_map [(''FLOAT_TYPE'', FLOAT_TYPE tname), (data_a_key, ''1''), (''LOAD_VEC_A'', load_vec_a), (''LOAD_VEC_B'', load_vec), (''B_TYPE'', aligned_b_type_f16), (''B_TYPE32'', aligned_b_type_f32), (''D_TYPE'', ''float''), (''ALIGNED'', ''1'')])) fp16 coopmat coopmat2 f16acc]
                    else [])
                 @ (if INTEGER_DOT_GLSLC_SUPPORT mc \<and> \<not> coopmat \<and> \<not> coopmat2
                         \<and> matmul_id_type = NONE \<and> is_legacy_quant tname
                    then [emit (shader_name @ ''_'' @ tname @ ''_q8_1'') ''mul_mmq.comp'' (merge_maps mm_dict (std_map [(''FLOAT_TYPE'', FLOAT_TYPE tname), (data_a_key, ''1''), (''D_TYPE'', ''float'')])) fp16 coopmat coopmat2 f16acc]
                    else [])) type_names))"

definition base_dict :: smap where
  \<comment> \<open>the local \<^verbatim>\<open>base_dict\<close> of \<^verbatim>\<open>process_shaders\<close>\<close>
  "base_dict = std_map [(''FLOAT_TYPE'', ''float'')]"

definition matmul_all :: "macros \<Rightarrow> 'a emitter \<Rightarrow> 'a list" where
  "matmul_all mc emit =
     concat (map (\<lambda>matmul_id_type.
         matmul_shaders mc emit False matmul_id_type False False False
       @ matmul_shaders mc emit True matmul_id_type False False False
       @ matmul_shaders mc emit True matmul_id_type False False True
       @ (if matmul_id_type \<noteq> DEFAULT
          then (if COOPMAT_GLSLC_SUPPORT mc
                then matmul_shaders mc emit True matmul_id_type True False False
                   @ matmul_shaders mc emit True matmul_id_type True False True
                else [])
             @ (if COOPMAT2_GLSLC_SUPPORT mc
                then matmul_shaders mc emit True matmul_id_type False True False
                   @ matmul_shaders mc emit True matmul_id_type False True True
                else [])
          else [])) [NONE, DEFAULT, SUBGROUP])"

definition flash_attn_shaders :: "macros \<Rightarrow> 'a emitter \<Rightarrow> 'a list" where
  "flash_attn_shaders mc emit =
     concat (map (\<lambda>f16acc.
       let fa0 = base_dict;
           fa1 = map_assign ''ACC_TYPE'' (if f16acc then ''float16_t'' else ''float'') fa0;
           fa2 = map_assign ''ACC_TYPEV4'' (if f16acc then ''f16vec4'' else ''vec4'') fa1;
           fa_base_dict = (if f16acc then map_assign ''ACC_TYPE_MAX'' acc_type_max fa2 else fa2)
       in concat (map (\<lambda>tname.
            if tname = ''f32'' then []
            else if tname = ''bf16'' then []
            else
              (if COOPMAT2_GLSLC_SUPPORT mc
               then (if tname = ''f16''
                     then [emit (''flash_attn_f32_f16_'' @ tname) ''flash_attn_cm2.comp'' (merge_maps fa_base_dict (std_map [(''Q_TYPE'', ''float''), (''D_TYPE'', ''float'')])) True False True f16acc]
                     else (let data_a_key = ''DATA_A_'' @ to_uppercase tname
                           in [emit (''flash_attn_f32_f16_'' @ tname) ''flash_attn_cm2.comp'' (merge_maps fa_base_dict (std_map [(data_a_key, ''1''), (''Q_TYPE'', ''float''), (''D_TYPE'', ''float''), (''DEQUANTFUNC'', ''dequantFunc'' @ to_uppercase tname), (''BLOCK_SIZE'', ''QUANT_K_'' @ to_uppercase tname)])) True False True f16acc]))
               else [])
            @ (if COOPMAT_GLSLC_SUPPORT mc
               then (if tname = ''f16''
                     then [emit (''flash_attn_f32_f16_'' @ tname) ''flash_attn_cm1.comp'' (merge_maps fa_base_dict (std_map [(''Q_TYPE'', ''float''), (''D_TYPE'', ''float''), (''COOPMAT'', ''1'')])) True True False f16acc]
                     else if tname = ''q4_0'' \<or> tname = ''q8_0''
                     then (let data_a_key = ''DATA_A_'' @ to_uppercase tname
                           in [emit (''flash_attn_f32_f16_'' @ tname) ''flash_attn_cm1.comp'' (merge_maps fa_base_dict (std_map [(data_a_key, ''1''), (''Q_TYPE'', ''float''), (''D_TYPE'', ''float''), (''BLOCK_SIZE'', ''QUANT_K_'' @ to_uppercase tname), (''COOPMAT'', ''1'')])) True True False f16acc])
                     else [])
               else [])
            @ (if tname = ''f16''
               then [emit (''flash_attn_f32_f16_'' @ tname) ''flash_attn.comp'' (merge_maps fa_base_dict (std_map [(''Q_TYPE'', ''float''), (''D_TYPE'', ''float'')])) True False False f16acc]
               else if tname = ''q4_0'' \<or> tname = ''q8_0''
               then (let data_a_key = ''DATA_A_'' @ to_uppercase tname
                     in [emit (''flash_attn_f32_f16_'' @ tname) ''flash_attn.comp'' (merge_maps fa_base_dict (std_map [(data_a_key, ''1''), (''Q_TYPE'', ''float''), (''D_TYPE'', ''float''), (''BLOCK_SIZE'', ''QUANT_K_'' @ to_uppercase tname)])) True False False f16acc])
               else [])) type_names)) [False, True])"

definition type_shaders :: "macros \<Rightarrow> 'a emitter \<Rightarrow> string \<Rightarrow> 'a list" where
  \<comment> \<open>the body of the loop over \<^verbatim>\<open>type_names\<close> that starts with "mul mat vec"\<close>
  "type_shaders mc emit tname =
    (let data_a_key = ''DATA_A_'' @ to_uppercase tname;
         shader = (if string_ends_with tname ''_k'' \<or> string_starts_with tname ''iq1_'' \<or>
                      string_starts_with tname ''iq2_'' \<or> string_starts_with tname ''iq3_''
                   then ''mul_mat_vec_'' @ tname @ ''.comp'' else ''mul_mat_vec.comp'')
     in
       [spv0 emit (''mul_mat_vec_'' @ tname @ ''_f32_f32'') shader (merge_maps base_dict (std_map [(data_a_key, ''1''), (''B_TYPE'', ''float''), (''B_TYPE_VEC2'', ''vec2''), (''B_TYPE_VEC4'', ''vec4''), (''D_TYPE'', ''float'')])),
        spv0 emit (''mul_mat_vec_'' @ tname @ ''_f16_f32'') shader (merge_maps base_dict (std_map [(data_a_key, ''1''), (''B_TYPE'', ''float16_t''), (''B_TYPE_VEC2'', ''f16vec2''), (''B_TYPE_VEC4'', ''f16vec4''), (''D_TYPE'', ''float'')])),
        spv0 emit (''mul_mat_vec_'' @ tname @ ''_f32_f32_subgroup'') shader (merge_maps base_dict (std_map [(data_a_key, ''1''), (''B_TYPE'', ''float''), (''B_TYPE_VEC2'', ''vec2''), (''B_TYPE_VEC4'', ''vec4''), (''D_TYPE'', ''float''), (''USE_SUBGROUP_ADD'', ''1'')])),
        spv0 emit (''mul_mat_vec_'' @ tname @ ''_f16_f32_subgroup'') shader (merge_maps base_dict (std_map [(data_a_key, ''1''), (''B_TYPE'', ''float16_t''), (''B_TYPE_VEC2'', ''f16vec2''), (''B_TYPE_VEC4'', ''f16vec4''), (''D_TYPE'', ''float''), (''USE_SUBGROUP_ADD'', ''1'')])),
        spv0 emit (''mul_mat_vec_'' @ tname @ ''_f32_f32_subgroup_no_shmem'') shader (merge_maps base_dict (std_map [(data_a_key, ''1''), (''B_TYPE'', ''float''), (''B_TYPE_VEC2'', ''vec2''), (''B_TYPE_VEC4'', ''vec4''), (''D_TYPE'', ''float''), (''USE_SUBGROUP_ADD_NO_SHMEM'', ''1'')])),
        spv0 emit (''mul_mat_vec_'' @ tname @ ''_f16_f32_subgroup_no_shmem'') shader (merge_maps base_dict (std_map [(data_a_key, ''1''), (''B_TYPE'', ''float16_t''), (''B_TYPE_VEC2'', ''f16vec2''), (''B_TYPE_VEC4'', ''f16vec4''), (''D_TYPE'', ''float''), (''USE_SUBGROUP_ADD_NO_SHMEM'', ''1'')])),
        spv0 emit (''mul_mat_vec_id_'' @ tname @ ''_f32'') shader (merge_maps base_dict (std_map [(''MUL_MAT_ID'', ''1''), (data_a_key, ''1''), (''B_TYPE'', ''float''), (''B_TYPE_VEC2'', ''vec2''), (''B_TYPE_VEC4'', ''vec4''), (''D_TYPE'', ''float'')]))]
       @ (if INTEGER_DOT_GLSLC_SUPPORT mc \<and> is_legacy_quant tname
          then [spv0 emit (''mul_mat_vec_'' @ tname @ ''_q8_1_f32'') ''mul_mat_vecq.comp'' (merge_maps base_dict (std_map [(data_a_key, ''1''), (''D_TYPE'', ''float''), (''FLOAT_TYPE'', ''float''), (''FLOAT_TYPE_VEC2'', ''vec2''), (''ACC_TYPE'', ''float'')])),
                spv0 emit (''mul_mat_vec_'' @ tname @ ''_q8_1_f32_subgroup'') ''mul_mat_vecq.comp'' (merge_maps base_dict (std_map [(data_a_key, ''1''), (''D_TYPE'', ''float''), (''FLOAT_TYPE'', ''float''), (''FLOAT_TYPE_VEC2'', ''vec2''), (''ACC_TYPE'', ''float''), (''USE_SUBGROUP_ADD'', ''1'')])),
                spv0 emit (''mul_mat_vec_'' @ tname @ ''_q8_1_f32_subgroup_no_shmem'') ''mul_mat_vecq.comp'' (merge_maps base_dict (std_map [(data_a_key, ''1''), (''D_TYPE'', ''float''), (''FLOAT_TYPE'', ''float''), (''FLOAT_TYPE_VEC2'', ''vec2''), (''ACC_TYPE'', ''float''), (''USE_SUBGROUP_ADD_NO_SHMEM'', ''1'')]))]
          else [])
       @ (if tname \<noteq> ''f16'' \<and> tname \<noteq> ''bf16''
          then [spv0 emit (''dequant_'' @ tname) (''dequant_'' @ tname @ ''.comp'') (merge_maps base_dict (std_map [(data_a_key, ''1''), (''D_TYPE'', ''float16_t'')]))]
          else [])
       @ (if \<not> string_ends_with tname ''_k''
          then (let shader = (if tname = ''f32'' \<or> tname = ''f16'' \<or> tname = ''bf16''
                              then ''get_rows.comp'' else ''get_rows_quant.comp'')
                in [if tname = ''f16''
                    then spv0 emit (''get_rows_'' @ tname) shader (merge_maps base_dict (std_map [(data_a_key, ''1''), (''B_TYPE'', ''int''), (''D_TYPE'', ''float16_t''), (''OPTIMIZATION_ERROR_WORKAROUND'', ''1'')]))
                    else spv0 emit (''get_rows_'' @ tname) shader (merge_maps base_dict (std_map [(data_a_key, ''1''), (''B_TYPE'', ''int''), (''D_TYPE'', ''float16_t'')])),
                    spv0 emit (''get_rows_'' @ tname @ ''_f32'') shader (merge_maps base_dict (std_map [(data_a_key, ''1''), (''B_TYPE'', ''int''), (''D_TYPE'', ''float'')]))])
          else []))"

definition fixed_shaders_1 :: "'a emitter \<Rightarrow> 'a list" where
  \<comment> \<open>the calls from \<^verbatim>\<open>mul_mat_vec_p021_f16_f32_subgroup_add\<close> to \<^verbatim>\<open>cpy_i32_f32\<close>\<close>
  "fixed_shaders_1 emit =
    [spv0 emit ''mul_mat_vec_p021_f16_f32_subgroup_add'' ''mul_mat_vec_p021.comp'' (std_map [(''A_TYPE'', ''float16_t''), (''A_TYPE_VEC4'', ''f16vec4''), (''B_TYPE'', ''float''), (''B_TYPE_VEC4'', ''vec4''), (''D_TYPE'', ''float''), (''USE_SUBGROUP_ADD'', ''1'')]),
     spv0 emit ''mul_mat_vec_p021_f16_f32'' ''mul_mat_vec_p021.comp'' (std_map [(''A_TYPE'', ''float16_t''), (''A_TYPE_VEC4'', ''f16vec4''), (''B_TYPE'', ''float''), (''B_TYPE_VEC4'', ''vec4''), (''D_TYPE'', ''float'')]),
     spv0 emit ''mul_mat_vec_nc_f16_f32'' ''mul_mat_vec_nc.comp'' (std_map [(''A_TYPE'', ''float16_t''), (''A_TYPE_VEC4'', ''f16vec4''), (''B_TYPE'', ''float''), (''B_TYPE_VEC4'', ''vec4''), (''D_TYPE'', ''float'')]),
     spv0 emit ''norm_f32'' ''norm.comp'' (merge_maps base_dict (std_map [(''A_TYPE'', ''float''), (''D_TYPE'', ''float'')])),
     spv0 emit ''group_norm_f32'' ''group_norm.comp'' (merge_maps base_dict (std_map [(''A_TYPE'', ''float''), (''D_TYPE'', ''float'')])),
     spv0 emit ''rms_norm_f32'' ''rms_norm.comp'' (merge_maps base_dict (std_map [(''A_TYPE'', ''float''), (''B_TYPE'', ''float''), (''D_TYPE'', ''float'')])),
     spv0 emit ''rms_norm_partials_f32'' ''rms_norm_partials.comp'' (merge_maps base_dict (std_map [(''A_TYPE'', ''float''), (''B_TYPE'', ''float''), (''D_TYPE'', ''float'')])),
     spv0 emit ''rms_norm_back_f32'' ''rms_norm_back.comp'' (merge_maps base_dict (std_map [(''A_TYPE'', ''float''), (''B_TYPE'', ''float''), (''D_TYPE'', ''float'')])),
     spv0 emit ''l2_norm_f32'' ''l2_norm.comp'' (merge_maps base_dict (std_map [(''A_TYPE'', ''float''), (''D_TYPE'', ''float'')])),
     spv0 emit ''cpy_f32_f32'' ''copy.comp'' (std_map [(''A_TYPE'', ''float''), (''D_TYPE'', ''float'')]),
     spv0 emit ''cpy_f32_f16'' ''copy.comp'' (std_map [(''A_TYPE'', ''float''), (''D_TYPE'', ''float16_t'')]),
     spv0 emit ''cpy_f16_f16'' ''copy.comp'' (std_map [(''A_TYPE'', ''float16_t''), (''D_TYPE'', ''float16_t''), (''OPTIMIZATION_ERROR_WORKAROUND'', ''1'')]),
     spv0 emit ''cpy_f16_f32'' ''copy.comp'' (std_map [(''A_TYPE'', ''float16_t''), (''D_TYPE'', ''float''), (''OPTIMIZATION_ERROR_WORKAROUND'', ''1'')]),
     spv0 emit ''cpy_f32_bf16'' ''copy.comp'' (std_map [(''A_TYPE'', ''float''), (''D_TYPE'', ''uint16_t''), (''DATA_D_BF16'', ''1'')]),
     spv0 emit ''contig_cpy_f32_f32'' ''contig_copy.comp'' (std_map [(''A_TYPE'', ''float''), (''D_TYPE'', ''float'')]),
     spv0 emit ''contig_cpy_f32_i32'' ''contig_copy.comp'' (std_map [(''A_TYPE'', ''float''), (''D_TYPE'', ''int'')]),
     spv0 emit ''contig_cpy_i32_f32'' ''contig_copy.comp'' (std_map [(''A_TYPE'', ''int''), (''D_TYPE'', ''float'')]),
     spv0 emit ''contig_cpy_f32_f16'' ''contig_copy.comp'' (std_map [(''A_TYPE'', ''float''), (''D_TYPE'', ''float16_t'')]),
     spv0 emit ''contig_cpy_f16_f16'' ''contig_copy.comp'' (std_map [(''A_TYPE'', ''float16_t''), (''D_TYPE'', ''float16_t''), (''OPTIMIZATION_ERROR_WORKAROUND'', ''1'')]),
     spv0 emit ''contig_cpy_f16_f32'' ''contig_copy.comp'' (std_map [(''A_TYPE'', ''float16_t''), (''D_TYPE'', ''float''), (''OPTIMIZATION_ERROR_WORKAROUND'', ''1'')]),
     spv0 emit ''contig_cpy_f32_bf16'' ''contig_copy.comp'' (std_map [(''A_TYPE'', ''float''), (''D_TYPE'', ''uint16_t''), (''DATA_D_BF16'', ''1'')]),
     spv0 emit ''cpy_f32_i32'' ''copy.comp'' (std_map [(''A_TYPE'', ''float''), (''D_TYPE'', ''int'')]),
     spv0 emit ''cpy_i32_f32'' ''copy.comp'' (std_map [(''A_TYPE'', ''int''), (''D_TYPE'', ''float'')])]"

definition cpy_quant_shaders :: "'a emitter \<Rightarrow> 'a list" where
  "cpy_quant_shaders emit =
     concat (map (\<lambda>t.
       [spv0 emit (''cpy_f32_'' @ t) ''copy_to_quant.comp'' (std_map [(''DATA_A_'' @ to_uppercase t, ''1''), (''D_TYPE'', ''float''), (''FLOAT_TYPE'', ''float'')]),
        spv0 emit (''cpy_f32_'' @ t @ ''_rte'') ''copy_to_quant.comp'' (std_map [(''DATA_A_'' @ to_uppercase t, ''1''), (''D_TYPE'', ''float''), (''FLOAT_TYPE'', ''float''), (''RTE16'', ''1'')]),
        spv0 emit (''cpy_'' @ t @ ''_f32'') ''copy_from_quant.comp'' (std_map [(''DATA_A_'' @ to_uppercase t, ''1''), (''D_TYPE'', ''float''), (''FLOAT_TYPE'', ''float'')])])
       [''q4_0'', ''q4_1'', ''q5_0'', ''q5_1'', ''q8_0'', ''iq4_nl''])"

definition set_rows_shaders :: "'a emitter \<Rightarrow> 'a list" where
  "set_rows_shaders emit =
     concat (map (\<lambda>t.
       [spv0 emit (''set_rows_'' @ t) ''copy_to_quant.comp'' (std_map [(''SET_ROWS'', ''1''), (''DATA_A_'' @ to_uppercase t, ''1''), (''B_TYPE'', ''uvec2''), (''D_TYPE'', ''float''), (''FLOAT_TYPE'', ''float'')]),
        spv0 emit (''set_rows_'' @ t @ ''_rte'') ''copy_to_quant.comp'' (std_map [(''SET_ROWS'', ''1''), (''DATA_A_'' @ to_uppercase t, ''1''), (''B_TYPE'', ''uvec2''), (''D_TYPE'', ''float''), (''FLOAT_TYPE'', ''float''), (''RTE16'', ''1'')])])
       [''f32'', ''f16'', ''bf16'', ''q4_0'', ''q4_1'', ''q5_0'', ''q5_1'', ''q8_0'', ''iq4_nl''])"

definition get_type_str :: "bool \<Rightarrow> string" where
  "get_type_str f16 = (if f16 then ''float16_t'' else ''float'')"

definition get_suffix :: "bool \<Rightarrow> bool \<Rightarrow> bool \<Rightarrow> string" where
  "get_suffix src0_f16 src1_f16 dst_f16 =
     (if src0_f16 then ''_f16'' else ''_f32'') @ (if src1_f16 then ''_f16'' else ''_f32'')
       @ (if dst_f16 then ''_f16'' else ''_f32'')"

definition binary_op_shaders :: "'a emitter \<Rightarrow> 'a list" where
  "binary_op_shaders emit =
     concat (map (\<lambda>op.
     concat (map (\<lambda>src0_f16.
     concat (map (\<lambda>src1_f16.
     concat (map (\<lambda>dst_f16.
       map (\<lambda>rte.
         let source = (if op = ''add_rms'' then ''add'' else op);
             name = op @ get_suffix src0_f16 src1_f16 dst_f16 @ (if rte then ''_rte'' else '''');
             add_rms = (if op = ''add_rms'' then ''1'' else ''0'')
         in spv0 emit name (source @ ''.comp'') (std_map [(''A_TYPE'', get_type_str src0_f16), (''B_TYPE'', get_type_str src1_f16), (''D_TYPE'', get_type_str dst_f16), (''FLOAT_TYPE'', ''float''), (''RTE16'', if rte then ''1'' else ''0''), (''ADD_RMS'', add_rms)]))
       [False, True])
     [False, True]))
     [False, True]))
     [False, True]))
     [''add'', ''sub'', ''mul'', ''div'', ''add_rms''])"

definition fixed_shaders_2 :: "'a emitter \<Rightarrow> 'a list" where
  \<comment> \<open>the calls from \<^verbatim>\<open>sub_f32\<close> to \<^verbatim>\<open>hardswish_f32\<close>\<close>
  "fixed_shaders_2 emit =
    [spv0 emit ''sub_f32'' ''sub.comp'' (std_map [(''A_TYPE'', ''float''), (''B_TYPE'', ''float''), (''D_TYPE'', ''float''), (''FLOAT_TYPE'', ''float'')]),
     spv0 emit ''acc_f32'' ''acc.comp'' (std_map [(''A_TYPE'', ''float''), (''B_TYPE'', ''float''), (''D_TYPE'', ''float''), (''FLOAT_TYPE'', ''float'')]),
     spv0 emit ''split_k_reduce'' ''mul_mat_split_k_reduce.comp'' (std_map []),
     spv0 emit ''fa_split_k_reduce'' ''flash_attn_split_k_reduce.comp'' (std_map []),
     spv0 emit ''quantize_q8_1'' ''quantize_q8_1.comp'' (std_map []),
     spv0 emit ''quantize_q8_1_subgroup'' ''quantize_q8_1.comp'' (std_map [(''USE_SUBGROUPS'', ''1'')]),
     spv0 emit ''quantize_q8_1_x4'' ''quantize_q8_1.comp'' (std_map [(''QBLOCK_X4'', ''1'')]),
     spv0 emit ''quantize_q8_1_x4_subgroup'' ''quantize_q8_1.comp'' (std_map [(''QBLOCK_X4'', ''1''), (''USE_SUBGROUPS'', ''1'')]),
     spv0 emit ''mul_f32'' ''mul.comp'' (std_map [(''A_TYPE'', ''float''), (''B_TYPE'', ''float''), (''D_TYPE'', ''float''), (''FLOAT_TYPE'', ''float'')]),
     spv0 emit ''div_f32'' ''div.comp'' (std_map [(''A_TYPE'', ''float''), (''B_TYPE'', ''float''), (''D_TYPE'', ''float''), (''FLOAT_TYPE'', ''float'')]),
     spv0 emit ''repeat_f32'' ''repeat.comp'' (std_map [(''A_TYPE'', ''float''), (''D_TYPE'', ''float'')]),
     spv0 emit ''repeat_back_f32'' ''repeat_back.comp'' (std_map [(''A_TYPE'', ''float''), (''D_TYPE'', ''float'')]),
     spv0 emit ''scale_f32'' ''scale.comp'' (std_map [(''A_TYPE'', ''float''), (''D_TYPE'', ''float''), (''FLOAT_TYPE'', ''float'')]),
     spv0 emit ''sqr_f32'' ''square.comp'' (std_map [(''A_TYPE'', ''float''), (''D_TYPE'', ''float''), (''FLOAT_TYPE'', ''float'')]),
     spv0 emit ''sqrt_f32'' ''sqrt.comp'' (std_map [(''A_TYPE'', ''float''), (''D_TYPE'', ''float''), (''FLOAT_TYPE'', ''float'')]),
     spv0 emit ''sin_f32'' ''sin.comp'' (std_map [(''A_TYPE'', ''float''), (''D_TYPE'', ''float''), (''FLOAT_TYPE'', ''float'')]),
     spv0 emit ''cos_f32'' ''cos.comp'' (std_map [(''A_TYPE'', ''float''), (''D_TYPE'', ''float''), (''FLOAT_TYPE'', ''float'')]),
     spv0 emit ''clamp_f32'' ''clamp.comp'' (std_map [(''A_TYPE'', ''float''), (''D_TYPE'', ''float''), (''FLOAT_TYPE'', ''float'')]),
     spv0 emit ''pad_f32'' ''pad.comp'' (std_map [(''A_TYPE'', ''float''), (''D_TYPE'', ''float'')]),
     spv0 emit ''concat_f32'' ''concat.comp'' (std_map [(''A_TYPE'', ''float''), (''B_TYPE'', ''float''), (''D_TYPE'', ''float'')]),
     spv0 emit ''concat_f16'' ''concat.comp'' (std_map [(''A_TYPE'', ''float16_t''), (''B_TYPE'', ''float16_t''), (''D_TYPE'', ''float16_t''), (''OPTIMIZATION_ERROR_WORKAROUND'', ''1'')]),
     spv0 emit ''concat_i32'' ''concat.comp'' (std_map [(''A_TYPE'', ''int''), (''B_TYPE'', ''int''), (''D_TYPE'', ''int'')]),
     spv0 emit ''upscale_f32'' ''upscale.comp'' (std_map [(''A_TYPE'', ''float''), (''B_TYPE'', ''float''), (''D_TYPE'', ''float'')]),
     spv0 emit ''exp_f16'' ''exp.comp'' (std_map [(''A_TYPE'', ''float16_t''), (''D_TYPE'', ''float16_t'')]),
     spv0 emit ''exp_f32'' ''exp.comp'' (std_map [(''A_TYPE'', ''float''), (''D_TYPE'', ''float'')]),
     spv0 emit ''gelu_f16'' ''gelu.comp'' (std_map [(''A_TYPE'', ''float16_t''), (''D_TYPE'', ''float16_t'')]),
     spv0 emit ''gelu_f32'' ''gelu.comp'' (std_map [(''A_TYPE'', ''float''), (''D_TYPE'', ''float'')]),
     spv0 emit ''gelu_erf_f16'' ''gelu_erf.comp'' (std_map [(''A_TYPE'', ''float16_t''), (''D_TYPE'', ''float16_t'')]),
     spv0 emit ''gelu_erf_f32'' ''gelu_erf.comp'' (std_map [(''A_TYPE'', ''float''), (''D_TYPE'', ''float'')]),
     spv0 emit ''gelu_quick_f16'' ''gelu_quick.comp'' (std_map [(''A_TYPE'', ''float16_t''), (''D_TYPE'', ''float16_t'')]),
     spv0 emit ''gelu_quick_f32'' ''gelu_quick.comp'' (std_map [(''A_TYPE'', ''float''), (''D_TYPE'', ''float'')]),
     spv0 emit ''silu_f16'' ''silu.comp'' (std_map [(''A_TYPE'', ''float16_t''), (''D_TYPE'', ''float16_t'')]),
     spv0 emit ''silu_f32'' ''silu.comp'' (std_map [(''A_TYPE'', ''float''), (''D_TYPE'', ''float'')]),
     spv0 emit ''relu_f16'' ''relu.comp'' (std_map [(''A_TYPE'', ''float16_t''), (''D_TYPE'', ''float16_t'')]),
     spv0 emit ''relu_f32'' ''relu.comp'' (std_map [(''A_TYPE'', ''float''), (''D_TYPE'', ''float'')]),
     spv0 emit ''tanh_f16'' ''tanh.comp'' (std_map [(''A_TYPE'', ''float16_t''), (''D_TYPE'', ''float16_t'')]),
     spv0 emit ''tanh_f32'' ''tanh.comp'' (std_map [(''A_TYPE'', ''float''), (''D_TYPE'', ''float'')]),
     spv0 emit ''sigmoid_f16'' ''sigmoid.comp'' (std_map [(''A_TYPE'', ''float16_t''), (''D_TYPE'', ''float16_t'')]),
     spv0 emit ''sigmoid_f32'' ''sigmoid.comp'' (std_map [(''A_TYPE'', ''float''), (''D_TYPE'', ''float'')]),
     spv0 emit ''hardsigmoid_f16'' ''hardsigmoid.comp'' (std_map [(''A_TYPE'', ''float16_t''), (''D_TYPE'', ''float16_t'')]),
     spv0 emit ''hardsigmoid_f32'' ''hardsigmoid.comp'' (std_map [(''A_TYPE'', ''float''), (''D_TYPE'', ''float'')]),
     spv0 emit ''hardswish_f16'' ''hardswish.comp'' (std_map [(''A_TYPE'', ''float16_t''), (''D_TYPE'', ''float16_t'')]),
     spv0 emit ''hardswish_f32'' ''hardswish.comp'' (std_map [(''A_TYPE'', ''float''), (''D_TYPE'', ''float'')])]"

definition glu_shaders :: "'a emitter \<Rightarrow> 'a list" where
  "glu_shaders emit =
     concat (map (\<lambda>rte.
       let suffix = (if rte then ''_rte'' else '''')
       in [spv0 emit (''geglu_f16'' @ suffix) ''geglu.comp'' (std_map [(''A_TYPE'', ''float16_t''), (''D_TYPE'', ''float16_t''), (''RTE16'', if rte then ''1'' else ''0'')]),
           spv0 emit (''geglu_f32'' @ suffix) ''geglu.comp'' (std_map [(''A_TYPE'', ''float''), (''D_TYPE'', ''float''), (''RTE16'', if rte then ''1'' else ''0'')]),
           spv0 emit (''reglu_f16'' @ suffix) ''reglu.comp'' (std_map [(''A_TYPE'', ''float16_t''), (''D_TYPE'', ''float16_t''), (''RTE16'', if rte then ''1'' else ''0'')]),
           spv0 emit (''reglu_f32'' @ suffix) ''reglu.comp'' (std_map [(''A_TYPE'', ''float''), (''D_TYPE'', ''float''), (''RTE16'', if rte then ''1'' else ''0'')]),
           spv0 emit (''swiglu_f16'' @ suffix) ''swiglu.comp'' (std_map [(''A_TYPE'', ''float16_t''), (''D_TYPE'', ''float16_t''), (''RTE16'', if rte then ''1'' else ''0'')]),
           spv0 emit (''swiglu_f32'' @ suffix) ''swiglu.comp'' (std_map [(''A_TYPE'', ''float''), (''D_TYPE'', ''float''), (''RTE16'', if rte then ''1'' else ''0'')]),
           spv0 emit (''swiglu_oai_f16'' @ suffix) ''swiglu_oai.comp'' (std_map [(''A_TYPE'', ''float16_t''), (''D_TYPE'', ''float16_t''), (''RTE16'', if rte then ''1'' else ''0'')]),
           spv0 emit (''swiglu_oai_f32'' @ suffix) ''swiglu_oai.comp'' (std_map [(''A_TYPE'', ''float''), (''D_TYPE'', ''float''), (''RTE16'', if rte then ''1'' else ''0'')]),
           spv0 emit (''geglu_erf_f16'' @ suffix) ''geglu_erf.comp'' (std_map [(''A_TYPE'', ''float16_t''), (''D_TYPE'', ''float16_t''), (''RTE16'', if rte then ''1'' else ''0'')]),
           spv0 emit (''geglu_erf_f32'' @ suffix) ''geglu_erf.comp'' (std_map [(''A_TYPE'', ''float''), (''D_TYPE'', ''float''), (''RTE16'', if rte then ''1'' else ''0'')]),
           spv0 emit (''geglu_quick_f16'' @ suffix) ''geglu_quick.comp'' (std_map [(''A_TYPE'', ''float16_t''), (''D_TYPE'', ''float16_t''), (''RTE16'', if rte then ''1'' else ''0'')]),
           spv0 emit (''geglu_quick_f32'' @ suffix) ''geglu_quick.comp'' (std_map [(''A_TYPE'', ''float''), (''D_TYPE'', ''float''), (''RTE16'', if rte then ''1'' else ''0'')])])
       [False, True])"

definition fixed_shaders_3 :: "'a emitter \<Rightarrow> 'a list" where
  \<comment> \<open>the calls from \<^verbatim>\<open>leaky_relu_f32\<close> to the plain \<^verbatim>\<open>conv2d_f16_f32\<close>\<close>
  "fixed_shaders_3 emit =
    [spv0 emit ''leaky_relu_f32'' ''leaky_relu.comp'' (std_map [(''A_TYPE'', ''float''), (''D_TYPE'', ''float'')]),
     spv0 emit ''silu_back_f32'' ''silu_back.comp'' (std_map [(''A_TYPE'', ''float''), (''B_TYPE'', ''float''), (''D_TYPE'', ''float'')]),
     spv0 emit ''diag_mask_inf_f32'' ''diag_mask_inf.comp'' (std_map [(''A_TYPE'', ''float''), (''D_TYPE'', ''float'')]),
     spv0 emit ''soft_max_f32'' ''soft_max.comp'' (merge_maps base_dict (std_map [(''A_TYPE'', ''float''), (''B_TYPE'', ''float''), (''D_TYPE'', ''float'')])),
     spv0 emit ''soft_max_f32_f16'' ''soft_max.comp'' (merge_maps base_dict (std_map [(''A_TYPE'', ''float''), (''B_TYPE'', ''float16_t''), (''D_TYPE'', ''float'')])),
     spv0 emit ''soft_max_back_f32'' ''soft_max_back.comp'' (merge_maps base_dict (std_map [(''A_TYPE'', ''float''), (''B_TYPE'', ''float''), (''D_TYPE'', ''float'')])),
     spv0 emit ''rope_norm_f32'' ''rope_norm.comp'' (std_map [(''A_TYPE'', ''float''), (''D_TYPE'', ''float'')]),
     spv0 emit ''rope_norm_f16'' ''rope_norm.comp'' (std_map [(''A_TYPE'', ''float16_t''), (''D_TYPE'', ''float16_t'')]),
     spv0 emit ''rope_norm_f16_rte'' ''rope_norm.comp'' (std_map [(''A_TYPE'', ''float16_t''), (''D_TYPE'', ''float16_t''), (''RTE16'', ''1'')]),
     spv0 emit ''rope_neox_f32'' ''rope_neox.comp'' (std_map [(''A_TYPE'', ''float''), (''D_TYPE'', ''float'')]),
     spv0 emit ''rope_neox_f16'' ''rope_neox.comp'' (std_map [(''A_TYPE'', ''float16_t''), (''D_TYPE'', ''float16_t'')]),
     spv0 emit ''rope_neox_f16_rte'' ''rope_neox.comp'' (std_map [(''A_TYPE'', ''float16_t''), (''D_TYPE'', ''float16_t''), (''RTE16'', ''1'')]),
     spv0 emit ''rope_multi_f32'' ''rope_multi.comp'' (std_map [(''A_TYPE'', ''float''), (''D_TYPE'', ''float'')]),
     spv0 emit ''rope_multi_f16'' ''rope_multi.comp'' (std_map [(''A_TYPE'', ''float16_t''), (''D_TYPE'', ''float16_t'')]),
     spv0 emit ''rope_multi_f16_rte'' ''rope_multi.comp'' (std_map [(''A_TYPE'', ''float16_t''), (''D_TYPE'', ''float16_t''), (''RTE16'', ''1'')]),
     spv0 emit ''rope_vision_f32'' ''rope_vision.comp'' (std_map [(''A_TYPE'', ''float''), (''D_TYPE'', ''float'')]),
     spv0 emit ''rope_vision_f16'' ''rope_vision.comp'' (std_map [(''A_TYPE'', ''float16_t''), (''D_TYPE'', ''float16_t'')]),
     spv0 emit ''rope_vision_f16_rte'' ''rope_vision.comp'' (std_map [(''A_TYPE'', ''float16_t''), (''D_TYPE'', ''float16_t''), (''RTE16'', ''1'')]),
     spv0 emit ''argsort_f32'' ''argsort.comp'' (std_map [(''A_TYPE'', ''float'')]),
     spv0 emit ''argmax_f32'' ''argmax.comp'' (merge_maps base_dict (std_map [(''A_TYPE'', ''float''), (''D_TYPE'', ''int'')])),
     spv0 emit ''sum_rows_f32'' ''sum_rows.comp'' (merge_maps base_dict (std_map [(''A_TYPE'', ''float''), (''D_TYPE'', ''float'')])),
     spv0 emit ''count_equal_i32'' ''count_equal.comp'' (merge_maps base_dict (std_map [(''A_TYPE'', ''int''), (''B_TYPE'', ''int''), (''D_TYPE'', ''int'')])),
     spv0 emit ''im2col_f32'' ''im2col.comp'' (merge_maps base_dict (std_map [(''A_TYPE'', ''float''), (''D_TYPE'', ''float'')])),
     spv0 emit ''im2col_f32_f16'' ''im2col.comp'' (merge_maps base_dict (std_map [(''A_TYPE'', ''float''), (''D_TYPE'', ''float16_t'')])),
     spv0 emit ''im2col_f32_f16_rte'' ''im2col.comp'' (merge_maps base_dict (std_map [(''A_TYPE'', ''float''), (''D_TYPE'', ''float16_t''), (''RTE16'', ''1'')])),
     spv0 emit ''im2col_3d_f32'' ''im2col_3d.comp'' (merge_maps base_dict (std_map [(''A_TYPE'', ''float''), (''D_TYPE'', ''float'')])),
     spv0 emit ''im2col_3d_f32_f16'' ''im2col_3d.comp'' (merge_maps base_dict (std_map [(''A_TYPE'', ''float''), (''D_TYPE'', ''float16_t'')])),
     spv0 emit ''im2col_3d_f32_f16_rte'' ''im2col_3d.comp'' (merge_maps base_dict (std_map [(''A_TYPE'', ''float''), (''D_TYPE'', ''float16_t''), (''RTE16'', ''1'')])),
     spv0 emit ''timestep_embedding_f32'' ''timestep_embedding.comp'' (merge_maps base_dict (std_map [(''A_TYPE'', ''float''), (''D_TYPE'', ''float'')])),
     spv0 emit ''conv_transpose_1d_f32'' ''conv_transpose_1d.comp'' (std_map [(''A_TYPE'', ''float''), (''B_TYPE'', ''float''), (''D_TYPE'', ''float'')]),
     spv0 emit ''pool2d_f32'' ''pool2d.comp'' (merge_maps base_dict (std_map [(''A_TYPE'', ''float''), (''D_TYPE'', ''float'')])),
     spv0 emit ''rwkv_wkv6_f32'' ''wkv6.comp'' (merge_maps base_dict (std_map [(''A_TYPE'', ''float'')])),
     spv0 emit ''rwkv_wkv7_f32'' ''wkv7.comp'' (merge_maps base_dict (std_map [(''A_TYPE'', ''float'')])),
     spv0 emit ''opt_step_adamw_f32'' ''opt_step_adamw.comp'' (merge_maps base_dict (std_map [(''A_TYPE'', ''float'')])),
     spv0 emit ''opt_step_sgd_f32'' ''opt_step_sgd.comp'' (merge_maps base_dict (std_map [(''A_TYPE'', ''float'')])),
     spv0 emit ''conv2d_f32_unroll'' ''conv2d_mm.comp'' (std_map [(''A_TYPE'', ''float''), (''B_TYPE'', ''float''), (''D_TYPE'', ''float''), (''USE_COLLECTIVES'', ''1''), (''UNROLL'', unroll_attr)]),
     spv0 emit ''conv2d_f16_f32_unroll'' ''conv2d_mm.comp'' (std_map [(''A_TYPE'', ''float16_t''), (''B_TYPE'', ''float''), (''D_TYPE'', ''float''), (''USE_COLLECTIVES'', ''1''), (''UNROLL'', unroll_attr)]),
     spv0 emit ''conv2d_f32'' ''conv2d_mm.comp'' (std_map [(''A_TYPE'', ''float''), (''B_TYPE'', ''float''), (''D_TYPE'', ''float''), (''USE_COLLECTIVES'', ''1''), (''UNROLL'', '''')]),
     spv0 emit ''conv2d_f16_f32'' ''conv2d_mm.comp'' (std_map [(''A_TYPE'', ''float16_t''), (''B_TYPE'', ''float''), (''D_TYPE'', ''float''), (''USE_COLLECTIVES'', ''1''), (''UNROLL'', '''')])]"

definition conv2d_cm2_shaders :: "macros \<Rightarrow> 'a emitter \<Rightarrow> 'a list" where
  "conv2d_cm2_shaders mc emit =
     (if COOPMAT2_GLSLC_SUPPORT mc
      then [emit ''conv2d_f32'' ''conv2d_mm.comp'' (std_map [(''A_TYPE'', ''float''), (''B_TYPE'', ''float''), (''D_TYPE'', ''float''), (''USE_COLLECTIVES'', ''1''), (''UNROLL'', unroll_attr), (''COOPMAT2'', ''1'')]) True False True False,
            emit ''conv2d_f16_f32'' ''conv2d_mm.comp'' (std_map [(''A_TYPE'', ''float16_t''), (''B_TYPE'', ''float''), (''D_TYPE'', ''float''), (''USE_COLLECTIVES'', ''1''), (''UNROLL'', unroll_attr), (''COOPMAT2'', ''1'')]) True False True False]
      else [])"

definition fixed_shaders_4 :: "'a emitter \<Rightarrow> 'a list" where
  \<comment> \<open>the calls from \<^verbatim>\<open>conv2d_dw_whcn_f32\<close> to \<^verbatim>\<open>multi_add_rms_f32\<close>\<close>
  "fixed_shaders_4 emit =
    [spv0 emit ''conv2d_dw_whcn_f32'' ''conv2d_dw.comp'' (merge_maps base_dict (std_map [(''A_TYPE'', ''float''), (''B_TYPE'', ''float''), (''D_TYPE'', ''float''), (''WHCN'', ''1'')])),
     spv0 emit ''conv2d_dw_cwhn_f32'' ''conv2d_dw.comp'' (merge_maps base_dict (std_map [(''A_TYPE'', ''float''), (''B_TYPE'', ''float''), (''D_TYPE'', ''float''), (''CWHN'', ''1'')])),
     spv0 emit ''conv2d_dw_whcn_f16_f32'' ''conv2d_dw.comp'' (merge_maps base_dict (std_map [(''A_TYPE'', ''float16_t''), (''B_TYPE'', ''float''), (''D_TYPE'', ''float''), (''WHCN'', ''1'')])),
     spv0 emit ''conv2d_dw_cwhn_f16_f32'' ''conv2d_dw.comp'' (merge_maps base_dict (std_map [(''A_TYPE'', ''float16_t''), (''B_TYPE'', ''float''), (''D_TYPE'', ''float''), (''CWHN'', ''1'')])),
     spv0 emit ''roll_f32'' ''roll.comp'' (merge_maps base_dict (std_map [(''A_TYPE'', ''float''), (''D_TYPE'', ''float'')])),
     spv0 emit ''add_id_f32'' ''add_id.comp'' (merge_maps base_dict (std_map [(''A_TYPE'', ''float''), (''B_TYPE'', ''float''), (''D_TYPE'', ''float'')])),
     spv0 emit ''multi_add_f32'' ''multi_add.comp'' (std_map [(''A_TYPE'', ''float''), (''B_TYPE'', ''float''), (''D_TYPE'', ''float''), (''FLOAT_TYPE'', ''float''), (''RTE16'', ''1''), (''ADD_RMS'', ''0'')]),
     spv0 emit ''multi_add_rms_f32'' ''multi_add.comp'' (std_map [(''A_TYPE'', ''float''), (''B_TYPE'', ''float''), (''D_TYPE'', ''float''), (''FLOAT_TYPE'', ''float''), (''RTE16'', ''1''), (''ADD_RMS'', ''1'')])]"

definition process_shaders :: "macros \<Rightarrow> 'a emitter \<Rightarrow> 'a list" where
  "process_shaders mc emit =
     matmul_all mc emit
     @ flash_attn_shaders mc emit
     @ concat (map (type_shaders mc emit) type_names)
     @ fixed_shaders_1 emit
     @ cpy_quant_shaders emit
     @ set_rows_shaders emit
     @ binary_op_shaders emit
     @ fixed_shaders_2 emit
     @ glu_shaders emit
     @ fixed_shaders_3 emit
     @ conv2d_cm2_shaders mc emit
     @ fixed_shaders_4 emit"

section \<open>Files\<close>

text \<open>
  The file system as far as the generator touches it. A path holds no file, a file that
  opens but cannot be read, or a file with its bytes. \<open>locked\<close> are the paths that cannot
  be opened for writing, \<open>no_mkdir\<close> the directories whose creation throws. \<open>writes\<close>
  logs the paths that \<^verbatim>\<open>write_binary_file\<close> has written, in order; the diagnostic
  stream is not part of the model.
\<close>

datatype file_state = Unreadable | Content string

record world =
  files :: "string \<Rightarrow> file_state option"
  dirs :: "string \<Rightarrow> bool"
  locked :: "string \<Rightarrow> bool"
  no_mkdir :: "string \<Rightarrow> bool"
  writes :: "string list"

definition read_binary_file :: "world \<Rightarrow> string \<Rightarrow> string" where
  \<comment> \<open>the empty vector when the file cannot be opened or read; \<^verbatim>\<open>may_not_exist\<close> only
     silences the message\<close>
  "read_binary_file w path =
     (case files w path of None \<Rightarrow> [] | Some Unreadable \<Rightarrow> [] | Some (Content bytes) \<Rightarrow> bytes)"

definition write_binary_file :: "world \<Rightarrow> string \<Rightarrow> string \<Rightarrow> world" where
  "write_binary_file w path content =
     (if locked w path then w
      else w\<lparr>files := (files w)(path \<mapsto> Content content), writes := writes w @ [path]\<rparr>)"

definition write_file_if_changed :: "world \<Rightarrow> string \<Rightarrow> string \<Rightarrow> world" where
  "write_file_if_changed w path content =
     (let existing = read_binary_file w path
      in if length existing \<noteq> length content \<or> existing \<noteq> content
         then write_binary_file w path content else w)"

definition exists :: "world \<Rightarrow> string \<Rightarrow> bool" where
  "exists w path = (dirs w path \<or> files w path \<noteq> None)"

definition create_directories :: "world \<Rightarrow> string \<Rightarrow> world option" where
  \<comment> \<open>\<open>None\<close>: the call throws \<^verbatim>\<open>std::filesystem::filesystem_error\<close>\<close>
  "create_directories w path =
     (if no_mkdir w path then None else Some (w\<lparr>dirs := (dirs w)(path := True)\<rparr>))"

section \<open>The build graph\<close>

definition nl :: string where
  "nl = [CHR 0x0A]"

definition dq :: string where
  "dq = [CHR 0x22]"

definition cmake_escape :: "string \<Rightarrow> string" where
  "cmake_escape str =
     concat (map (\<lambda>c. if c = CHR 0x22 \<or> c = CHR 0x5C then [CHR 0x5C, c] else [c]) str)"

record cmake_lists =
  out :: string
  out_filepaths :: "string list"

definition cmake_init :: cmake_lists where
  "cmake_init = \<lparr>out = [], out_filepaths = []\<rparr>"

definition add_header :: "globals \<Rightarrow> string list \<Rightarrow> cmake_lists \<Rightarrow> cmake_lists" where
  "add_header g argv cm =
     cm\<lparr>out := out cm
       @ ''# Generated with '' @ concat (map (\<lambda>a. a @ '' '') argv) @ nl @ nl
       @ ''cmake_minimum_required(VERSION 3.14)'' @ nl
       @ ''project(ggml-vulkan-shaders)'' @ nl @ nl
       @ ''set(GLSLC '' @ dq @ GLSLC g @ dq @ '')'' @ nl @ nl
       @ ''function(compile_shader name in_file out_file flags)'' @ nl
       @ ''  add_custom_command('' @ nl
       @ ''    OUTPUT ${out_file}'' @ nl
       @ ''    COMMAND ${GLSLC} ${flags} ${ARGN} -MD -MF ${out_file}.d ${in_file} -o ${out_file}'' @ nl
       @ ''    DEPENDS ${in_file}'' @ nl
       @ ''    DEPFILE ${out_file}.d'' @ nl
       @ ''    COMMENT '' @ dq @ ''Building Vulkan shader ${name}.spv'' @ dq @ nl
       @ ''  )'' @ nl
       @ ''endfunction()'' @ nl @ nl\<rparr>"

definition add_build_command :: "job \<Rightarrow> cmake_lists \<Rightarrow> cmake_lists" where
  \<comment> \<open>the call \<^verbatim>\<open>cmake.add_build_command(name, in_path, out_path, flags)\<close> of
     \<^verbatim>\<open>string_to_spv\<close>\<close>
  "add_build_command j cm =
     \<lparr>out = out cm
        @ ''compile_shader('' @ job_name j @ '' '' @ quoted (job_in_path j) @ '' ''
        @ quoted (job_out_path j) @ '' ''
        @ concat (map (\<lambda>flag. dq @ cmake_escape flag @ dq @ '' '') (job_flags j))
        @ '')'' @ nl,
      out_filepaths = out_filepaths cm @ [job_out_path j]\<rparr>"

definition add_target_embed :: "globals \<Rightarrow> string \<Rightarrow> string \<Rightarrow> string \<Rightarrow> cmake_lists \<Rightarrow> cmake_lists" where
  "add_target_embed g shaders_gen_executable target_hpp target_cpp cm =
     cm\<lparr>out := out cm
       @ nl @ ''add_custom_command('' @ nl
       @ ''  OUTPUT '' @ quoted target_hpp @ '' '' @ quoted target_cpp @ nl
       @ ''  COMMAND '' @ quoted shaders_gen_executable
       @ '' --glslc '' @ GLSLC g
       @ '' --input-dir '' @ quoted (input_dir g)
       @ '' --output-dir '' @ quoted (output_dir g)
       @ '' --target-hpp '' @ quoted target_hpp
       @ '' --target-cpp '' @ quoted target_cpp @ nl
       @ ''  DEPENDS'' @ nl
       @ concat (map (\<lambda>spv_path. ''    '' @ quoted spv_path @ nl) (out_filepaths cm))
       @ ''  COMMENT '' @ dq @ ''Embedding Vulkan shaders into C++ source'' @ dq @ nl
       @ '')'' @ nl
       @ nl @ ''add_custom_target(vulkan-shaders ALL DEPENDS'' @ nl
       @ ''  '' @ quoted target_hpp @ nl
       @ ''  '' @ quoted target_cpp @ nl
       @ '')'' @ nl\<rparr>"

definition add_target_build_only :: "cmake_lists \<Rightarrow> cmake_lists" where
  "add_target_build_only cm =
     cm\<lparr>out := out cm
       @ nl @ ''add_custom_target(vulkan-shaders ALL DEPENDS'' @ nl
       @ concat (map (\<lambda>spv_path. ''  '' @ quoted spv_path @ nl) (out_filepaths cm))
       @ '')'' @ nl\<rparr>"

definition cmake_write :: "cmake_lists \<Rightarrow> world \<Rightarrow> string \<Rightarrow> world" where
  "cmake_write cm w target_filepath = write_file_if_changed w target_filepath (out cm)"

section \<open>The embedder\<close>

text \<open>
  \<^verbatim>\<open>write_embed_files\<close> builds the text of the header in \<open>hdr\<close> and of the source in
  \<open>src\<close>. \<open>embed_artifacts\<close> is its loop over the sorted \<^verbatim>\<open>shader_fnames\<close>; the
  \<^verbatim>\<open>continue\<close> of a job without data is the branch that leaves both texts as they are.
\<close>

definition stub_hdr :: "string \<Rightarrow> string \<Rightarrow> string" where
  "stub_hdr name path =
     ''inline constexpr char const * '' @ name @ ''_data = '' @ dq @ path_filename path @ dq
       @ '';'' @ nl
     @ ''const uint64_t '' @ name @ ''_len = 0;'' @ nl @ nl"

definition artifact_hdr :: "string \<Rightarrow> string \<Rightarrow> string" where
  "artifact_hdr name data =
     ''extern const unsigned char '' @ name @ ''_data['' @ show_dec (length data) @ ''];'' @ nl
     @ ''const uint64_t '' @ name @ ''_len = '' @ show_dec (length data) @ '';'' @ nl @ nl"

fun hex_bytes :: "nat \<Rightarrow> string \<Rightarrow> string" where
  \<comment> \<open>the loop over \<open>i\<close>, entered with the index \<open>i\<close> of the first byte of \<open>data\<close>\<close>
  "hex_bytes i [] = []"
| "hex_bytes i (b # data) =
     ''0x'' @ show_hex (of_char b) @ '','' @ (if (i + 1) mod 12 = 0 then nl else [])
       @ hex_bytes (i + 1) data"

definition artifact_src :: "string \<Rightarrow> string \<Rightarrow> string" where
  "artifact_src name data =
     ''const unsigned char '' @ name @ ''_data['' @ show_dec (length data) @ ''] = {'' @ nl
     @ hex_bytes 0 data
     @ nl @ ''};'' @ nl @ nl"

fun embed_artifacts ::
  "bool \<Rightarrow> world \<Rightarrow> (string \<times> string) list \<Rightarrow> string \<times> string \<Rightarrow> string \<times> string" where
  "embed_artifacts no_embed w [] (hdr, src) = (hdr, src)"
| "embed_artifacts no_embed w ((name, path) # rest) (hdr, src) =
     (if no_embed then embed_artifacts no_embed w rest (hdr @ stub_hdr name path, src)
      else
        let data = read_binary_file w path
        in if data = [] then embed_artifacts no_embed w rest (hdr, src)
           else embed_artifacts no_embed w rest
                  (hdr @ artifact_hdr name data, src @ artifact_src name data))"

definition suffixes :: "nat \<Rightarrow> string" where
  \<comment> \<open>the array \<^verbatim>\<open>suffixes[2]\<close>, read at 0 and 1 only\<close>
  "suffixes t = (if t = 0 then ''_f32'' else ''_f16'')"

definition table_entry :: "string \<Rightarrow> nat \<Rightarrow> nat \<Rightarrow> nat \<Rightarrow> nat \<Rightarrow> string" where
  "table_entry op t0 t1 t2 rte =
     op @ suffixes t0 @ suffixes t1 @ suffixes t2 @ (if rte \<noteq> 0 then ''_rte'' else '''')"

definition table_body :: "string \<Rightarrow> string \<Rightarrow> string" where
  \<comment> \<open>the four nested loops, writing the entries with the ending \<open>e\<close>
     (\<^verbatim>\<open>_data,\<close> or \<^verbatim>\<open>_len,\<close>)\<close>
  "table_body op e =
     concat (map (\<lambda>t0. (if t0 = 0 then ''{'' else [])
       @ concat (map (\<lambda>t1. (if t1 = 0 then ''{'' else [])
           @ concat (map (\<lambda>t2. (if t2 = 0 then ''{'' else [])
               @ concat (map (\<lambda>rte. (if rte = 0 then ''{'' else [])
                   @ table_entry op t0 t1 t2 rte @ e
                   @ (if rte = 1 then ''}, '' else [])) [0, 1])
               @ (if t2 = 1 then ''}, '' else [])) [0, 1])
           @ (if t1 = 1 then ''}, '' else [])) [0, 1])
       @ (if t0 = 1 then ''};'' @ nl else [])) [0, 1])"

definition table_ops :: "string list" where
  "table_ops = [''add'', ''sub'', ''mul'', ''div'', ''add_rms'']"

definition op_table_hdr :: "string \<Rightarrow> string" where
  "op_table_hdr op =
     ''extern const void * '' @ op @ ''_data[2][2][2][2];'' @ nl
     @ ''extern const uint64_t '' @ op @ ''_len[2][2][2][2];'' @ nl"

definition op_table_src :: "string \<Rightarrow> string" where
  "op_table_src op =
     (''const void * '' @ op @ ''_data[2][2][2][2] = '' @ table_body op ''_data,'')
     @ (''const uint64_t '' @ op @ ''_len[2][2][2][2] = '' @ table_body op ''_len,'')"

definition btypes :: "macros \<Rightarrow> string list" where
  "btypes mc = [''f16'', ''f32''] @ (if INTEGER_DOT_GLSLC_SUPPORT mc then [''q8_1''] else [])"

definition dmmv_pairs :: "macros \<Rightarrow> (string \<times> string) list" where
  \<comment> \<open>the pairs of \<open>btype\<close> and \<open>tname\<close> for which the two loops reach their body\<close>
  "dmmv_pairs mc =
     concat (map (\<lambda>btype. concat (map (\<lambda>tname.
       if btype = ''q8_1'' \<and> \<not> is_legacy_quant tname then [] else [(btype, tname)]) type_names))
       (btypes mc))"

definition dmmv_entries :: "string \<Rightarrow> string \<Rightarrow> string list" where
  "dmmv_entries btype tname =
     [''mul_mat_vec_'' @ tname @ ''_'' @ btype @ ''_f32'',
      ''mul_mat_vec_'' @ tname @ ''_'' @ btype @ ''_f32_subgroup'',
      ''mul_mat_vec_'' @ tname @ ''_'' @ btype @ ''_f32_subgroup_no_shmem'']"

definition dmmv_hdr :: "string \<Rightarrow> string \<Rightarrow> string" where
  "dmmv_hdr btype tname =
     ''extern const void * arr_dmmv_'' @ tname @ ''_'' @ btype @ ''_f32_data[3];'' @ nl
     @ ''extern const uint64_t arr_dmmv_'' @ tname @ ''_'' @ btype @ ''_f32_len[3];'' @ nl"

definition dmmv_src :: "string \<Rightarrow> string \<Rightarrow> string" where
  "dmmv_src btype tname =
     (case dmmv_entries btype tname of
        [e0, e1, e2] \<Rightarrow>
          ''const void * arr_dmmv_'' @ tname @ ''_'' @ btype @ ''_f32_data[3] = {''
            @ e0 @ ''_data, '' @ e1 @ ''_data, '' @ e2 @ ''_data};'' @ nl
          @ ''const uint64_t arr_dmmv_'' @ tname @ ''_'' @ btype @ ''_f32_len[3] =  {''
            @ e0 @ ''_len,  '' @ e1 @ ''_len, '' @ e2 @ ''_len};'' @ nl
      | _ \<Rightarrow> [])"

definition embed_texts ::
  "macros \<Rightarrow> globals \<Rightarrow> world \<Rightarrow> (string \<times> string) list \<Rightarrow> string \<Rightarrow> bool \<Rightarrow> string \<times> string" where
  \<comment> \<open>the final values of \<open>hdr\<close> and \<open>src\<close>\<close>
  "embed_texts mc g w fnames target_hpp no_embed =
     (let hdr0 = ''#include <cstdint>'' @ nl @ nl;
          src0 = ''#include '' @ dq @ path_filename target_hpp @ dq @ nl @ nl;
          hdr1 = (if no_embed
                  then hdr0 @ ''#define GGML_VK_SHADER_DIR '' @ dq @ output_dir g @ dq @ nl @ nl
                  else hdr0);
          (hdr2, src2) = embed_artifacts no_embed w (sort fnames) (hdr1, src0);
          hdr3 = hdr2 @ concat (map op_table_hdr table_ops);
          src3 = src2 @ concat (map op_table_src table_ops);
          hdr4 = hdr3 @ concat (map (\<lambda>(btype, tname). dmmv_hdr btype tname) (dmmv_pairs mc));
          src4 = src3 @ concat (map (\<lambda>(btype, tname). dmmv_src btype tname) (dmmv_pairs mc))
      in (hdr4, src4))"

definition write_embed_files ::
  "macros \<Rightarrow> globals \<Rightarrow> world \<Rightarrow> (string \<times> string) list \<Rightarrow> string \<Rightarrow> string \<Rightarrow> bool \<Rightarrow> world" where
  "write_embed_files mc g w fnames target_hpp target_cpp no_embed =
     (let (hdr, src) = embed_texts mc g w fnames target_hpp no_embed;
          w1 = write_file_if_changed w target_hpp hdr
      in if no_embed then write_file_if_changed w1 target_cpp src
         else write_binary_file w1 target_cpp src)"

section \<open>The command line and \<^verbatim>\<open>main\<close>\<close>

definition first_char :: "string \<Rightarrow> char" where
  \<comment> \<open>\<^verbatim>\<open>argv[i + 1][0]\<close>: the terminating zero of an empty argument\<close>
  "first_char s = (case s of [] \<Rightarrow> CHR 0x00 | c # _ \<Rightarrow> c)"

fun parse_args :: "string list \<Rightarrow> smap \<Rightarrow> smap" where
  \<comment> \<open>the loop over \<^verbatim>\<open>argv[1]\<close>, \<^verbatim>\<open>argv[2]\<close>, ...; the list holds the arguments from
     \<^verbatim>\<open>argv[i]\<close> on\<close>
  "parse_args [] args = args"
| "parse_args [arg] args =
     (if string_starts_with arg ''--'' then map_assign arg [] args else args)"
| "parse_args (arg # nxt # rest) args =
     (if string_starts_with arg ''--''
      then (if first_char nxt \<noteq> CHR ''-''
            then parse_args rest (map_assign arg nxt args)
            else parse_args (nxt # rest) (map_assign arg [] args))
      else parse_args (nxt # rest) args)"

definition arg_given :: "smap \<Rightarrow> string \<Rightarrow> bool" where
  \<comment> \<open>\<^verbatim>\<open>args.find(k) != args.end()\<close>\<close>
  "arg_given args k = (map_of args k \<noteq> None)"

definition arg_or :: "smap \<Rightarrow> string \<Rightarrow> string \<Rightarrow> string" where
  \<comment> \<open>a variable that keeps its default \<open>d\<close> unless the option \<open>k\<close> is given\<close>
  "arg_or args k d = (case map_of args k of None \<Rightarrow> d | Some v \<Rightarrow> v)"

record outcome =
  exit_code :: int
  final :: world
  generated :: "job list"

definition EXIT_SUCCESS :: int where
  "EXIT_SUCCESS = 0"

definition EXIT_FAILURE :: int where
  "EXIT_FAILURE = 1"

definition main :: "macros \<Rightarrow> string \<Rightarrow> string list \<Rightarrow> world \<Rightarrow> outcome" where
  \<comment> \<open>\<open>prog\<close> is \<^verbatim>\<open>argv[0]\<close>, \<open>arguments\<close> are \<^verbatim>\<open>argv[1]\<close>, \<^verbatim>\<open>argv[2]\<close>, ...\<close>
  "main mc prog arguments w =
     (let args = parse_args arguments [];
          g = \<lparr>GLSLC = arg_or args ''--glslc'' ''glslc'',
               input_dir = arg_or args ''--input-dir'' ''vulkan-shaders'',
               output_dir = arg_or args ''--output-dir'' ''/tmp''\<rparr>;
          target_hpp = arg_or args ''--target-hpp'' ''ggml-vulkan-shaders.hpp'';
          target_cpp = arg_or args ''--target-cpp'' ''ggml-vulkan-shaders.cpp'';
          target_cmake = arg_or args ''--target-cmake'' [];
          no_embed = arg_given args ''--no-embed''
      in if arg_given args ''--help''
         then \<lparr>exit_code = EXIT_SUCCESS, final = w, generated = []\<rparr>
         else if no_embed \<and> target_cmake = []
         then \<lparr>exit_code = EXIT_FAILURE, final = w, generated = []\<rparr>
         else if \<not> exists w (input_dir g)
         then \<lparr>exit_code = EXIT_FAILURE, final = w, generated = []\<rparr>
         else
           (case (if \<not> exists w (output_dir g) then create_directories w (output_dir g)
                  else Some w) of
              None \<Rightarrow> \<lparr>exit_code = EXIT_FAILURE, final = w, generated = []\<rparr>
            | Some w1 \<Rightarrow>
           (case (if target_cmake \<noteq> [] \<and> has_parent_path target_cmake
                       \<and> \<not> exists w1 (parent_path target_cmake)
                  then create_directories w1 (parent_path target_cmake) else Some w1) of
              None \<Rightarrow> \<lparr>exit_code = EXIT_FAILURE, final = w1, generated = []\<rparr>
            | Some w2 \<Rightarrow>
                let cm0 = (if target_cmake \<noteq> [] then add_header g (prog # arguments) cmake_init
                           else cmake_init);
                    jobs = process_shaders mc (string_to_spv mc g);
                    cm1 = fold add_build_command jobs cm0;
                    w3 = (if target_cmake = [] \<or> no_embed
                          then write_embed_files mc g w2 (shader_fnames jobs)
                                 target_hpp target_cpp no_embed
                          else w2);
                    w4 = (if target_cmake \<noteq> []
                          then cmake_write
                                 (if no_embed then add_target_build_only cm1
                                  else add_target_embed g prog target_hpp target_cpp cm1)
                                 w3 target_cmake
                          else w3)
                in \<lparr>exit_code = EXIT_SUCCESS, final = w4, generated = jobs\<rparr>)))"

section \<open>Define maps: merging\<close>

text \<open>
  A \<^verbatim>\<open>std::map\<close> keeps its keys in strictly increasing order (\<open>wf_map\<close>); the
  insertion and assignment of the model keep that order, and on such a list \<open>map_of\<close> is
  the lookup.
\<close>

lemma wf_map_Cons: "wf_map ((k, v) # m) \<longleftrightarrow> (\<forall>k'\<in>fst ` set m. k < k') \<and> wf_map m"
  by (auto simp: wf_map_def)

lemma wf_map_Nil: "wf_map []"
  by (simp add: wf_map_def)

lemma map_of_wf_less: "wf_map ((k', v') # m) \<Longrightarrow> k < k' \<Longrightarrow> map_of m k = None"
  by (force simp: wf_map_Cons map_of_eq_None_iff)

lemma fst_set_map_insert: "fst ` set (map_insert (k, v) m) = insert k (fst ` set m)"
  by (induction m) (force split: if_splits)+

lemma fst_set_map_assign: "fst ` set (map_assign k v m) = insert k (fst ` set m)"
  by (induction m) (force split: if_splits)+

lemma wf_map_insert: "wf_map m \<Longrightarrow> wf_map (map_insert kv m)"
proof (induction m)
  case Nil
  show ?case by (cases kv) (simp add: wf_map_def)
next
  case (Cons a m)
  obtain k v where kv: "kv = (k, v)" by (cases kv)
  obtain k' v' where a: "a = (k', v')" by (cases a)
  from Cons show ?case
    unfolding kv a by (auto simp: wf_map_Cons fst_set_map_insert)
qed

lemma wf_map_assign: "wf_map m \<Longrightarrow> wf_map (map_assign k v m)"
proof (induction m)
  case Nil
  show ?case by (simp add: wf_map_def)
next
  case (Cons a m)
  obtain k' v' where a: "a = (k', v')" by (cases a)
  from Cons show ?case
    unfolding a by (auto simp: wf_map_Cons fst_set_map_assign)
qed

lemma map_of_map_insert:
  "wf_map m \<Longrightarrow> map_of (map_insert (k, v) m) =
     (case map_of m k of None \<Rightarrow> (map_of m)(k \<mapsto> v) | Some u \<Rightarrow> map_of m)"
proof (induction m)
  case Nil
  show ?case by simp
next
  case (Cons a m)
  obtain k' v' where a: "a = (k', v')" by (cases a)
  from Cons.prems have wf: "wf_map m" by (simp add: a wf_map_Cons)
  show ?case
  proof (cases "k = k'")
    case True
    then show ?thesis by (simp add: a)
  next
    case False
    show ?thesis
    proof (cases "k < k'")
      case True
      with Cons.prems have "map_of m k = None" unfolding a by (rule map_of_wf_less)
      with True False show ?thesis by (simp add: a)
    next
      case ge: False
      with False Cons.IH[OF wf] show ?thesis
        by (auto simp: a fun_eq_iff split: option.splits)
    qed
  qed
qed

lemma map_of_map_assign: "wf_map m \<Longrightarrow> map_of (map_assign k v m) = (map_of m)(k \<mapsto> v)"
proof (induction m)
  case Nil
  show ?case by simp
next
  case (Cons a m)
  obtain k' v' where a: "a = (k', v')" by (cases a)
  from Cons.prems have wf: "wf_map m" by (simp add: a wf_map_Cons)
  show ?case using Cons.IH[OF wf] by (auto simp: a fun_eq_iff)
qed

lemma wf_map_insert_range: "wf_map m \<Longrightarrow> wf_map (map_insert_range b m)"
  unfolding map_insert_range_def by (induction b arbitrary: m) (simp_all add: wf_map_insert)

lemma map_of_insert_range:
  "wf_map m \<Longrightarrow> map_of (map_insert_range b m) k =
     (case map_of m k of Some v \<Rightarrow> Some v | None \<Rightarrow> map_of b k)"
  unfolding map_insert_range_def
proof (induction b arbitrary: m)
  case Nil
  show ?case by (simp split: option.splits)
next
  case (Cons kv b)
  obtain k' v' where kv: "kv = (k', v')" by (cases kv)
  have "wf_map (map_insert (k', v') m)" using Cons.prems by (rule wf_map_insert)
  from Cons.IH[OF this] Cons.prems show ?case
    by (auto simp: kv map_of_map_insert split: option.splits)
qed

lemma wf_std_map: "wf_map (std_map init)"
  unfolding std_map_def by (rule wf_map_insert_range) (simp add: wf_map_def)

lemma wf_merge_maps: "wf_map a \<Longrightarrow> wf_map (merge_maps a b)"
  by (simp add: merge_maps_def wf_map_insert_range)

text \<open>
  C2, as amended. \<^verbatim>\<open>merge_maps(a, b)\<close> copies \<open>a\<close> and inserts the pairs of \<open>b\<close> with
  \<^verbatim>\<open>std::map::insert\<close>, which does not replace a key that is present. So for a key of both
  maps the merged map has the value of \<open>a\<close> (the first source wins); a key of \<open>a\<close> only
  keeps the value of \<open>a\<close>, a key of \<open>b\<close> only gets the value of \<open>b\<close>, and a key of
  neither map is absent.
\<close>

theorem merge_maps_first_wins:
  "wf_map a \<Longrightarrow>
     map_of (merge_maps a b) k = (case map_of a k of Some v \<Rightarrow> Some v | None \<Rightarrow> map_of b k)"
  by (simp add: merge_maps_def map_of_insert_range)

text \<open>C2, witness: a key of both maps, and a key of the second map only.\<close>

theorem merge_maps_first_wins_witness:
  "wf_map [(''ACC_TYPE'', ''float''), (''FLOAT_TYPE'', ''float'')] \<and>
   map_of (merge_maps [(''ACC_TYPE'', ''float''), (''FLOAT_TYPE'', ''float'')]
            [(''D_TYPE'', ''float''), (''FLOAT_TYPE'', ''float16_t'')]) ''FLOAT_TYPE'' = Some ''float'' \<and>
   map_of (merge_maps [(''ACC_TYPE'', ''float''), (''FLOAT_TYPE'', ''float'')]
            [(''D_TYPE'', ''float''), (''FLOAT_TYPE'', ''float16_t'')]) ''D_TYPE'' = Some ''float''"
proof -
  have wf: "wf_map [(''ACC_TYPE'', ''float''), (''FLOAT_TYPE'', ''float'')]"
    by (simp add: wf_map_def)
  show ?thesis
    using wf merge_maps_first_wins[OF wf, of _ "''FLOAT_TYPE''"]
      merge_maps_first_wins[OF wf, of _ "''D_TYPE''"]
    by simp
qed

text \<open>
  C2, counterexample to the claim as stated ("the later merge source wins"): both maps
  hold the key \<^verbatim>\<open>FLOAT_TYPE\<close>, and the merged map does not have the value of the second.
\<close>

theorem merge_maps_later_wins_counterexample:
  "wf_map [(''FLOAT_TYPE'', ''float'')] \<and> wf_map [(''FLOAT_TYPE'', ''float16_t'')] \<and>
   map_of [(''FLOAT_TYPE'', ''float'')] ''FLOAT_TYPE'' = Some ''float'' \<and>
   map_of [(''FLOAT_TYPE'', ''float16_t'')] ''FLOAT_TYPE'' = Some ''float16_t'' \<and>
   map_of (merge_maps [(''FLOAT_TYPE'', ''float'')] [(''FLOAT_TYPE'', ''float16_t'')]) ''FLOAT_TYPE''
     \<noteq> Some ''float16_t''"
  by (simp add: wf_map_def merge_maps_def map_insert_range_def)

section \<open>Compiler flags of a job\<close>

lemma job_name_string_to_spv:
  "job_name (string_to_spv mc g n i d fp16 cm cm2 acc) = spv_name n fp16 cm cm2 acc"
  by (simp add: string_to_spv_def Let_def)

lemma job_flags_string_to_spv:
  "job_flags (string_to_spv mc g n i d fp16 cm cm2 acc) =
     [''-fshader-stage=compute'',
      if contains (spv_name n fp16 cm cm2 acc) ''_cm2'' then ''--target-env=vulkan1.3''
      else ''--target-env=vulkan1.2'',
      if cm \<or> contains (spv_name n fp16 cm cm2 acc) ''bf16'' then [] else ''-O'']
     @ (if SHADER_DEBUG_INFO mc then [''-g''] else [])
     @ map (\<lambda>(k, v). ''-D'' @ k @ ''='' @ v) d"
  by (simp add: string_to_spv_def Let_def)

lemma define_flag_neq:
  "''-O'' \<notin> set (map (\<lambda>(k, v). ''-D'' @ k @ ''='' @ v) d)"
  "''--target-env=vulkan1.3'' \<notin> set (map (\<lambda>(k, v). ''-D'' @ k @ ''='' @ v) d)"
  "''--target-env=vulkan1.2'' \<notin> set (map (\<lambda>(k, v). ''-D'' @ k @ ''='' @ v) d)"
  by auto

lemma opt_flag_iff:
  "''-O'' \<in> set (job_flags (string_to_spv mc g n i d fp16 cm cm2 acc)) \<longleftrightarrow>
     \<not> cm \<and> \<not> contains (spv_name n fp16 cm cm2 acc) ''bf16''"
  using define_flag_neq(1)[of d] by (auto simp: job_flags_string_to_spv)

lemma target_env_iff:
  "''--target-env=vulkan1.3'' \<in> set (job_flags (string_to_spv mc g n i d fp16 cm cm2 acc)) \<longleftrightarrow>
     contains (spv_name n fp16 cm cm2 acc) ''_cm2''"
  "''--target-env=vulkan1.2'' \<in> set (job_flags (string_to_spv mc g n i d fp16 cm cm2 acc)) \<longleftrightarrow>
     \<not> contains (spv_name n fp16 cm cm2 acc) ''_cm2''"
  using define_flag_neq(2,3)[of d] by (auto simp: job_flags_string_to_spv)


lemma contains_eval:
  "contains ''matmul_f16_cm2'' ''bf16'' = False"
  "contains ''matmul_f16_cm2'' ''_cm2'' = True"
  "contains ''matmul_bf16'' ''bf16'' = True"
  "contains ''matmul_f16_cm1'' ''bf16'' = False"
  "contains ''norm_f32'' ''bf16'' = False"
  "contains ''norm_f32'' ''_cm2'' = False"
  by (simp_all add: contains_def str_find_def string_starts_with_def)


text \<open>
  C5, as amended. For every call of \<^verbatim>\<open>string_to_spv\<close> the flag \<^verbatim>\<open>-O\<close> is in the flag
  list exactly when the parameter \<open>coopmat\<close> (the first cooperative-matrix path, suffix
  \<^verbatim>\<open>_cm1\<close>) is false and the job's name does not contain \<^verbatim>\<open>bf16\<close>; the parameter
  \<open>coopmat2\<close> does not switch the optimisation off. The target environment is
  \<^verbatim>\<open>--target-env=vulkan1.3\<close> exactly when the name contains \<^verbatim>\<open>_cm2\<close>, and
  \<^verbatim>\<open>--target-env=vulkan1.2\<close> otherwise.
\<close>

theorem string_to_spv_opt_and_target_env:
  "job_name (string_to_spv mc g n i d fp16 cm cm2 acc) = spv_name n fp16 cm cm2 acc \<and>
   (''-O'' \<in> set (job_flags (string_to_spv mc g n i d fp16 cm cm2 acc)) \<longleftrightarrow>
      \<not> cm \<and> \<not> contains (spv_name n fp16 cm cm2 acc) ''bf16'') \<and>
   (''--target-env=vulkan1.3'' \<in> set (job_flags (string_to_spv mc g n i d fp16 cm cm2 acc)) \<longleftrightarrow>
      contains (spv_name n fp16 cm cm2 acc) ''_cm2'') \<and>
   (''--target-env=vulkan1.2'' \<in> set (job_flags (string_to_spv mc g n i d fp16 cm cm2 acc)) \<longleftrightarrow>
      \<not> contains (spv_name n fp16 cm cm2 acc) ''_cm2'')"
  by (simp only: job_name_string_to_spv opt_flag_iff target_env_iff simp_thms)


text \<open>C5, witness: the job \<^verbatim>\<open>norm_fp32\<close> is compiled with \<^verbatim>\<open>-O\<close>.\<close>

theorem string_to_spv_opt_and_target_env_witness:
  "job_name (string_to_spv \<lparr>COOPMAT_GLSLC_SUPPORT = True, COOPMAT2_GLSLC_SUPPORT = True,
       INTEGER_DOT_GLSLC_SUPPORT = True, BFLOAT16_GLSLC_SUPPORT = True, SHADER_DEBUG_INFO = False\<rparr>
     \<lparr>GLSLC = ''glslc'', input_dir = ''vulkan-shaders'', output_dir = ''/tmp''\<rparr>
     ''norm'' ''norm.comp'' [(''A_TYPE'', ''float'')] False False False False) = ''norm_fp32'' \<and>
   ''-O'' \<in> set (job_flags (string_to_spv \<lparr>COOPMAT_GLSLC_SUPPORT = True, COOPMAT2_GLSLC_SUPPORT = True,
       INTEGER_DOT_GLSLC_SUPPORT = True, BFLOAT16_GLSLC_SUPPORT = True, SHADER_DEBUG_INFO = False\<rparr>
     \<lparr>GLSLC = ''glslc'', input_dir = ''vulkan-shaders'', output_dir = ''/tmp''\<rparr>
     ''norm'' ''norm.comp'' [(''A_TYPE'', ''float'')] False False False False))"
  using string_to_spv_opt_and_target_env[of
      "\<lparr>COOPMAT_GLSLC_SUPPORT = True, COOPMAT2_GLSLC_SUPPORT = True,
       INTEGER_DOT_GLSLC_SUPPORT = True, BFLOAT16_GLSLC_SUPPORT = True, SHADER_DEBUG_INFO = False\<rparr>"
      "\<lparr>GLSLC = ''glslc'', input_dir = ''vulkan-shaders'', output_dir = ''/tmp''\<rparr>"
      "''norm''" "''norm.comp''" "[(''A_TYPE'', ''float'')]" False False False False]
  by (simp add: spv_name_def contains_def str_find_def string_starts_with_def)


text \<open>
  C5, counterexample to the claim as stated: \<^verbatim>\<open>matmul_f16_cm2\<close>, a job of the second
  cooperative-matrix path (\<open>coopmat2\<close> is true), keeps \<^verbatim>\<open>-O\<close>.
\<close>

theorem coopmat2_job_is_optimized_counterexample:
  "job_name (string_to_spv \<lparr>COOPMAT_GLSLC_SUPPORT = True, COOPMAT2_GLSLC_SUPPORT = True,
       INTEGER_DOT_GLSLC_SUPPORT = True, BFLOAT16_GLSLC_SUPPORT = True, SHADER_DEBUG_INFO = False\<rparr>
     \<lparr>GLSLC = ''glslc'', input_dir = ''vulkan-shaders'', output_dir = ''/tmp''\<rparr>
     ''matmul_f16'' ''mul_mm_cm2.comp'' [] True False True False) = ''matmul_f16_cm2'' \<and>
   ''-O'' \<in> set (job_flags (string_to_spv \<lparr>COOPMAT_GLSLC_SUPPORT = True, COOPMAT2_GLSLC_SUPPORT = True,
       INTEGER_DOT_GLSLC_SUPPORT = True, BFLOAT16_GLSLC_SUPPORT = True, SHADER_DEBUG_INFO = False\<rparr>
     \<lparr>GLSLC = ''glslc'', input_dir = ''vulkan-shaders'', output_dir = ''/tmp''\<rparr>
     ''matmul_f16'' ''mul_mm_cm2.comp'' [] True False True False))"
  by (simp add: opt_flag_iff job_name_string_to_spv spv_name_def contains_def str_find_def string_starts_with_def)

section \<open>The command line\<close>

text \<open>
  The value that the claim gives an option: the argument that follows it, when there is
  one and its first character is not \<^verbatim>\<open>-\<close>, and the empty string otherwise. \<open>rest\<close>
  are the arguments after the option.
\<close>

definition option_value :: "string list \<Rightarrow> string" where
  "option_value rest =
     (case rest of [] \<Rightarrow> [] | nxt # _ \<Rightarrow> if first_char nxt \<noteq> CHR ''-'' then nxt else [])"


lemma starts_dash: "string_starts_with a ''--'' \<Longrightarrow> first_char a = CHR ''-''"
  by (cases a) (auto simp: string_starts_with_def first_char_def split: if_splits)

lemma wf_parse_args: "wf_map m \<Longrightarrow> wf_map (parse_args xs m)"
  by (induction xs m rule: parse_args.induct) (simp_all add: wf_map_assign)

lemma parse_args_split:
  "first_char a = CHR ''-'' \<Longrightarrow>
     parse_args (pre @ a # rest) m = parse_args (a # rest) (parse_args pre m)"
  by (induction pre m rule: parse_args.induct) simp_all

lemma parse_args_other_key:
  "wf_map m \<Longrightarrow> a \<notin> set xs \<Longrightarrow> map_of (parse_args xs m) a = map_of m a"
  by (induction xs m rule: parse_args.induct) (auto simp: map_of_map_assign wf_map_assign)

lemma parse_args_keys:
  "fst ` set (parse_args xs m) = fst ` set m \<union> set (filter (\<lambda>a. string_starts_with a ''--'') xs)"
proof (induction xs m rule: parse_args.induct)
  case (1 args)
  show ?case by simp
next
  case (2 arg args)
  show ?case by (simp add: fst_set_map_assign)
next
  case (3 arg nxt rest args)
  show ?case
  proof (cases "string_starts_with arg ''--''")
    case False
    with 3 show ?thesis by simp
  next
    case True
    show ?thesis
    proof (cases "first_char nxt \<noteq> CHR ''-''")
      case consumed: True
      then have "\<not> string_starts_with nxt ''--''" using starts_dash by blast
      with 3(1)[OF True consumed] True consumed show ?thesis
        by (simp add: fst_set_map_assign)
    next
      case kept: False
      with 3(2)[OF True] True show ?thesis
        by (simp add: fst_set_map_assign)
    qed
  qed
qed

lemma parse_args_values:
  "wf_map m \<Longrightarrow> map_of (parse_args xs m) k = Some v \<Longrightarrow>
     map_of m k = Some v \<or> first_char v \<noteq> CHR ''-''"
proof (induction xs m rule: parse_args.induct)
  case (1 args)
  then show ?case by simp
next
  case (2 arg args)
  then show ?case by (auto simp: map_of_map_assign first_char_def split: if_splits)
next
  case (3 arg nxt rest args)
  show ?case
  proof (cases "string_starts_with arg ''--''")
    case False
    with 3 show ?thesis by auto
  next
    case True
    show ?thesis
    proof (cases "first_char nxt \<noteq> CHR ''-''")
      case consumed: True
      from 3(1)[OF True consumed wf_map_assign[OF 3(4)]] 3(5) True consumed
      have "map_of (map_assign arg nxt args) k = Some v \<or> first_char v \<noteq> CHR ''-''" by simp
      with consumed 3(4) show ?thesis by (auto simp: map_of_map_assign split: if_splits)
    next
      case kept: False
      from 3(2)[OF True _ wf_map_assign[OF 3(4)]] 3(5) True kept
      have "map_of (map_assign arg [] args) k = Some v \<or> first_char v \<noteq> CHR ''-''" by simp
      with 3(4) show ?thesis by (auto simp: map_of_map_assign first_char_def split: if_splits)
    qed
  qed
qed

lemma parse_args_here:
  assumes "wf_map m" "string_starts_with a ''--''" "a \<notin> set rest"
  shows "map_of (parse_args (a # rest) m) a = Some (option_value rest)"
proof (cases rest)
  case Nil
  with assms show ?thesis by (simp add: option_value_def map_of_map_assign)
next
  case (Cons nxt r)
  with assms have "a \<notin> set r" "a \<noteq> nxt" by auto
  with assms Cons show ?thesis
    by (auto simp: option_value_def parse_args_other_key map_of_map_assign wf_map_assign)
qed

lemma starts_eval:
  "string_starts_with ''--glslc'' ''--'' = True"
  "string_starts_with ''--no-embed'' ''--'' = True"
  "string_starts_with ''--input-dir'' ''--'' = True"
  "string_starts_with ''-x'' ''--'' = False"
  "string_starts_with ''a'' ''--'' = False"
  "string_starts_with ''b'' ''--'' = False"
  "string_starts_with ''shaders'' ''--'' = False"
  by (simp_all add: string_starts_with_def)


text \<open>
  C10, as amended. An argument \<open>a\<close> that begins with \<^verbatim>\<open>--\<close> and does not occur again
  after it (its last occurrence) is an option with the value \<open>option_value\<close> of the
  arguments that follow it. The options of the result are exactly the arguments that
  begin with \<^verbatim>\<open>--\<close>, and no value begins with \<^verbatim>\<open>-\<close>: an argument that begins with
  \<^verbatim>\<open>-\<close> is never consumed as a value; it is parsed as an option when it begins with
  \<^verbatim>\<open>--\<close> and is skipped otherwise.
\<close>

theorem parse_args_options:
  "(string_starts_with a ''--'' \<longrightarrow> a \<notin> set rest \<longrightarrow>
      map_of (parse_args (pre @ a # rest) []) a = Some (option_value rest)) \<and>
   dom (map_of (parse_args xs [])) = set (filter (\<lambda>a. string_starts_with a ''--'') xs) \<and>
   (\<forall>k v. map_of (parse_args xs []) k = Some v \<longrightarrow> first_char v \<noteq> CHR ''-'')"
proof (intro conjI impI allI)
  assume a: "string_starts_with a ''--''" "a \<notin> set rest"
  have "parse_args (pre @ a # rest) [] = parse_args (a # rest) (parse_args pre [])"
    using a(1) by (intro parse_args_split starts_dash)
  moreover have "wf_map (parse_args pre [])" by (rule wf_parse_args) (simp add: wf_map_def)
  ultimately show "map_of (parse_args (pre @ a # rest) []) a = Some (option_value rest)"
    using a by (simp add: parse_args_here)
next
  show "dom (map_of (parse_args xs [])) = set (filter (\<lambda>a. string_starts_with a ''--'') xs)"
    using parse_args_keys[of xs "[]"] by (simp add: dom_map_of_conv_image_fst)
next
  fix k v
  assume "map_of (parse_args xs []) k = Some v"
  then show "first_char v \<noteq> CHR ''-''"
    using parse_args_values[of "[]" xs k v] by (simp add: wf_map_def)
qed


text \<open>C10, witness: \<^verbatim>\<open>--glslc a --glslc b --no-embed\<close>.\<close>

theorem parse_args_options_witness:
  "string_starts_with ''--glslc'' ''--'' \<and> ''--glslc'' \<notin> set [''b'', ''--no-embed''] \<and>
   map_of (parse_args ([''--glslc'', ''a''] @ ''--glslc'' # [''b'', ''--no-embed'']) []) ''--glslc''
     = Some ''b'' \<and>
   dom (map_of (parse_args [''--glslc'', ''a'', ''--glslc'', ''b'', ''--no-embed''] []))
     = set [''--glslc'', ''--glslc'', ''--no-embed'']"
proof -
  have s: "string_starts_with ''--glslc'' ''--''"
    by (simp add: starts_eval)
  have n: "''--glslc'' \<notin> set [''b'', ''--no-embed'']"
    by simp
  note t = parse_args_options[of "''--glslc''" "[''b'', ''--no-embed'']" "[''--glslc'', ''a'']"
      "[''--glslc'', ''a'', ''--glslc'', ''b'', ''--no-embed'']"]
  have v: "option_value [''b'', ''--no-embed''] = ''b''"
    by (simp add: option_value_def first_char_def)
  from t s n have 1: "map_of (parse_args ([''--glslc'', ''a''] @ ''--glslc'' # [''b'', ''--no-embed'']) []) ''--glslc'' = Some (option_value [''b'', ''--no-embed''])"
    by blast
  have f: "filter (\<lambda>a. string_starts_with a ''--'') [''--glslc'', ''a'', ''--glslc'', ''b'', ''--no-embed'']
     = [''--glslc'', ''--glslc'', ''--no-embed'']"
    by (simp add: starts_eval)
  from t have 2: "dom (map_of (parse_args [''--glslc'', ''a'', ''--glslc'', ''b'', ''--no-embed''] []))
     = set (filter (\<lambda>a. string_starts_with a ''--'') [''--glslc'', ''a'', ''--glslc'', ''b'', ''--no-embed''])"
    by blast
  from s n 1 2 show ?thesis unfolding v f by blast
qed


text \<open>
  C10, counterexample to the claim as stated ("is instead parsed as a new option"): in
  \<^verbatim>\<open>--glslc -x\<close> the argument \<^verbatim>\<open>-x\<close> is not consumed as the value of \<^verbatim>\<open>--glslc\<close>,
  and it is not an option of the result either.
\<close>

theorem single_dash_not_an_option_counterexample:
  "first_char ''-x'' = CHR ''-'' \<and>
   map_of (parse_args [''--glslc'', ''-x''] []) ''--glslc'' = Some [] \<and>
   map_of (parse_args [''--glslc'', ''-x''] []) ''-x'' = None"
  by (simp add: starts_eval first_char_def)

end
